theory Spec2Isabelle
  imports Complex_Main
begin

chapter \<open>The coordinator and the worker over a shared message table\<close>

text \<open>
  A shallow embedding of \<open>backend/envelope.py\<close> (the envelope builder and the database
  adapter), of \<open>moon_agent.py\<close> (the coordinator: its six workflow nodes and
  \<open>process_incoming_message\<close>) and of \<open>backend/moon_agent_two.py\<close> (the worker: its
  five workflow nodes and \<open>process_work_request\<close>).

  Every function takes the world it runs in and returns the world it leaves: the
  \<open>messages\<close> table and the answers of the database, of \<open>uuid.uuid4()\<close>, of the clock
  and of the language model, which are arbitrary. A method of an agent also takes and
  returns the agent object, whose fields it assigns. An exception is a value \<open>Inl e\<close>.

  Left out are the polling loops, which run forever and sleep, the command reader and
  the sign-in; the dispatch functions they call are modelled, and a sequence of
  dispatches stands for the calls the loop makes over time. The \<open>print\<close> calls are left
  out except where formatting their argument raises.
\<close>

section \<open>Python string primitives used by the agents\<close>

text \<open>
  Python strings are modelled as \<^typ>\<open>string\<close>, read as a sequence of code points below
  256 (one \<^typ>\<open>char\<close> per code point), so that \<open>len\<close> is \<^const>\<open>length\<close> and a slice
  \<open>s[:n]\<close> is \<^term>\<open>take n s\<close>.
\<close>

text \<open>\<open>s.startswith(p)\<close>.\<close>

fun startswith :: "string \<Rightarrow> string \<Rightarrow> bool" where
  "startswith s [] = True"
| "startswith [] (p # ps) = False"
| "startswith (c # cs) (p # ps) = (c = p \<and> startswith cs ps)"

text \<open>\<open>k in s\<close> for strings: \<open>k\<close> occurs in \<open>s\<close> as a contiguous substring.\<close>

fun contains :: "string \<Rightarrow> string \<Rightarrow> bool" where
  "contains [] k = (k = [])"
| "contains (c # cs) k = (startswith (c # cs) k \<or> contains cs k)"

text \<open>
  \<open>s.replace(old, new)\<close>: every non-overlapping occurrence of \<open>old\<close>, scanning from the
  left, is replaced. With an empty \<open>old\<close> Python puts \<open>new\<close> before every character and at
  the end.
\<close>

function replace :: "string \<Rightarrow> string \<Rightarrow> string \<Rightarrow> string" where
  "replace [] old new = (if old = [] then new else [])"
| "replace (c # cs) old new =
     (if old = [] then new @ c # replace cs old new
      else if startswith (c # cs) old then new @ replace (drop (length old) (c # cs)) old new
      else c # replace cs old new)"
  by pat_completeness auto
termination
  by (relation "measure (\<lambda>(s, old, new). length s)") auto

text \<open>\<open>s.lower()\<close> on code points below 256: A-Z and the Latin-1 capitals move up by 32.\<close>

definition lower_char :: "char \<Rightarrow> char" where
  "lower_char c =
     (let n = (of_char c :: nat) in
      if (65 \<le> n \<and> n \<le> 90) \<or> (192 \<le> n \<and> n \<le> 222 \<and> n \<noteq> 215)
      then char_of (n + 32) else c)"

definition lower :: "string \<Rightarrow> string" where
  "lower s = map lower_char s"

text \<open>\<open>s.strip()\<close>: the characters Python counts as white space, below 256.\<close>

definition isspace :: "char \<Rightarrow> bool" where
  "isspace c = ((of_char c :: nat) \<in> {9, 10, 11, 12, 13, 28, 29, 30, 31, 32, 133, 160})"

definition strip :: "string \<Rightarrow> string" where
  "strip s = rev (dropWhile isspace (rev (dropWhile isspace s)))"

text \<open>\<open>s.split(sep)\<close> for a one-character separator; the result is never empty.\<close>

fun split :: "string \<Rightarrow> char \<Rightarrow> string list" where
  "split [] sep = [[]]"
| "split (c # cs) sep =
     (if c = sep then [] # split cs sep
      else (case split cs sep of [] \<Rightarrow> [[c]] | l # ls \<Rightarrow> (c # l) # ls))"

text \<open>\<open>sep.join(parts)\<close>.\<close>

fun join :: "string \<Rightarrow> string list \<Rightarrow> string" where
  "join sep [] = []"
| "join sep [p] = p"
| "join sep (p # q # ps) = p @ sep @ join sep (q # ps)"

section \<open>Errors\<close>

text \<open>
  The exceptions a stage can raise. \<open>DatabaseException\<close> stands for whatever the database
  client raises; the string is \<open>str(e)\<close>.
\<close>

datatype error =
    KeyError string
  | IndexError string
  | AttributeError string
  | UnboundLocalError string
  | DatabaseException string

text \<open>
  \<open>str(e)\<close> where the code stores it: for an exception of the database and for
  \<open>IndexError\<close> it is the text carried; the other kinds never reach a handler that
  formats them.
\<close>

fun str :: "error \<Rightarrow> string" where
  "str (KeyError k) = k"
| "str (IndexError m) = m"
| "str (AttributeError a) = a"
| "str (UnboundLocalError v) = v"
| "str (DatabaseException m) = m"

section \<open>Envelopes and message rows\<close>

text \<open>
  \<open>r_reply_to\<close> is \<open>None\<close> when the routing dictionary has no \<open>reply_to\<close> key and
  \<open>Some None\<close> when the key holds \<open>None\<close>. \<open>e_timestamps\<close> is \<open>None\<close> when the envelope has
  no \<open>timestamps\<close> key.
\<close>

record routing =
  r_project_id :: string
  r_from :: string
  r_to :: string
  r_reply_to :: "string option option"

record timestamps =
  created :: string
  updated :: string

record envelope =
  e_schema :: string
  e_type :: string
  e_routing :: routing
  e_payload_text :: string
  e_status :: string
  e_timestamps :: "timestamps option"
  e_id :: string

text \<open>The \<open>metadata\<close> dictionary of the worker's formatted response, stored as telemetry.\<close>

record metadata =
  model_used :: string
  processing_time_ms :: int
  md_analysis_type :: string
  request_id :: string
  worker_agent :: string
  md_completed_at :: string

text \<open>A row of the \<open>messages\<close> table. A key left out of the insert is a null column.\<close>

record message =
  m_id :: string
  m_project_id :: string
  m_human_id :: string
  m_agent_name :: string
  m_to_agent :: string
  m_intent :: string
  m_status :: string
  m_content :: envelope
  m_reply_to :: "string option"
  m_telemetry :: "metadata option"

section \<open>The environment\<close>

text \<open>
  Values decoded by \<open>json.loads\<close>. Floats are idealised as reals.
\<close>

datatype json =
    JNull
  | JBool bool
  | JInt int
  | JFloat real
  | JStr string
  | JList "json list"
  | JDict "(string \<times> json) list"

text \<open>Python truthiness of a decoded value.\<close>

fun truthy :: "json \<Rightarrow> bool" where
  "truthy JNull = False"
| "truthy (JBool b) = b"
| "truthy (JInt i) = (i \<noteq> 0)"
| "truthy (JFloat x) = (x \<noteq> 0)"
| "truthy (JStr s) = (s \<noteq> [])"
| "truthy (JList xs) = (xs \<noteq> [])"
| "truthy (JDict kvs) = (kvs \<noteq> [])"

text \<open>
  What one call of the language model does: it raises, or it returns a message with the
  texts of its content blocks and the input and output token counts.
\<close>

datatype advisor_outcome =
    AdvisorRaises string
  | AdvisorReply "string list" nat nat

text \<open>
  What \<open>json.loads\<close> does with a text: it returns the decoded value, it raises
  \<open>JSONDecodeError\<close>, or it raises something else (\<open>ValueError\<close> for an integer of too
  many digits, \<open>RecursionError\<close> for a text nested too deeply).
\<close>

datatype decoding = Decoded json | NotJSON | DecodeRaises string

text \<open>What one call to the database does: it answers, it reports no data, or it raises.\<close>

datatype store_fate = Served | NoData | StoreRaises string

text \<open>
  Everything outside the process: the \<open>messages\<close> table in insertion order, and the
  sources the code draws from, each with the number of draws made so far:
  the database (\<open>store_src\<close>), \<open>uuid.uuid4()\<close>, \<open>datetime.now().isoformat()\<close>,
  \<open>time.time()\<close>, the language model, and the library function \<open>json.loads\<close>.
\<close>

record world =
  messages :: "message list"
  store_src :: "nat \<Rightarrow> store_fate"
  store_calls :: nat
  uuid_src :: "nat \<Rightarrow> string"
  uuid_calls :: nat
  now_src :: "nat \<Rightarrow> string"
  now_calls :: nat
  time_src :: "nat \<Rightarrow> real"
  time_calls :: nat
  advisor_src :: "nat \<Rightarrow> advisor_outcome"
  advisor_calls :: nat
  json_loads :: "string \<Rightarrow> decoding"

definition uuid4 :: "world \<Rightarrow> string \<times> world" where
  "uuid4 w = (uuid_src w (uuid_calls w), w\<lparr>uuid_calls := Suc (uuid_calls w)\<rparr>)"

definition now_isoformat :: "world \<Rightarrow> string \<times> world" where
  "now_isoformat w = (now_src w (now_calls w), w\<lparr>now_calls := Suc (now_calls w)\<rparr>)"

definition time_time :: "world \<Rightarrow> real \<times> world" where
  "time_time w = (time_src w (time_calls w), w\<lparr>time_calls := Suc (time_calls w)\<rparr>)"

text \<open>\<open>table('messages').insert(row).execute()\<close>: the \<open>data\<close> of the response, or the exception.\<close>

definition insert_row :: "message \<Rightarrow> world \<Rightarrow> (error + message list) \<times> world" where
  "insert_row row w =
     (let w' = w\<lparr>store_calls := Suc (store_calls w)\<rparr> in
      case store_src w (store_calls w) of
        Served \<Rightarrow> (Inr [row], w'\<lparr>messages := messages w @ [row]\<rparr>)
      | NoData \<Rightarrow> (Inr [], w')
      | StoreRaises e \<Rightarrow> (Inl (DatabaseException e), w'))"

text \<open>\<open>table('messages').select('*').eq('id', i).execute()\<close>.\<close>

definition select_by_id :: "string \<Rightarrow> world \<Rightarrow> (error + message list) \<times> world" where
  "select_by_id i w =
     (let w' = w\<lparr>store_calls := Suc (store_calls w)\<rparr> in
      case store_src w (store_calls w) of
        Served \<Rightarrow> (Inr (filter (\<lambda>r. m_id r = i) (messages w)), w')
      | NoData \<Rightarrow> (Inr [], w')
      | StoreRaises e \<Rightarrow> (Inl (DatabaseException e), w'))"

text \<open>\<open>client.messages.create(...)\<close>.\<close>

definition call_advisor :: "world \<Rightarrow> advisor_outcome \<times> world" where
  "call_advisor w =
     (advisor_src w (advisor_calls w), w\<lparr>advisor_calls := Suc (advisor_calls w)\<rparr>)"

section \<open>envelope.py\<close>

subsection \<open>SolarEnvelopeBuilder\<close>

definition create_task ::
  "string \<Rightarrow> string \<Rightarrow> string \<Rightarrow> string \<Rightarrow> world \<Rightarrow> envelope \<times> world" where
  "create_task project_id from_agent to_agent task_text w =
     (let (t_created, w1) = now_isoformat w;
          (t_updated, w2) = now_isoformat w1;
          (uid, w3) = uuid4 w2
      in (\<lparr> e_schema = ''company.a2a.v1'',
            e_type = ''task.create'',
            e_routing = \<lparr> r_project_id = project_id,
                          r_from = ''agent: '' @ from_agent,
                          r_to = ''agent:'' @ to_agent,
                          r_reply_to = Some None \<rparr>,
            e_payload_text = task_text,
            e_status = ''sent'',
            e_timestamps = Some \<lparr> created = t_created, updated = t_updated \<rparr>,
            e_id = uid \<rparr>, w3))"

text \<open>
  The keyword arguments \<open>status="processing"\<close> and \<open>reply_to=None\<close> are options:
  \<open>None\<close> for \<open>status\<close> is a call that leaves the argument out.
\<close>

definition create_task_update ::
  "string \<Rightarrow> string \<Rightarrow> string \<Rightarrow> string option \<Rightarrow> string option \<Rightarrow> world \<Rightarrow> envelope \<times> world"
  where
  "create_task_update project_id from_agent progress_text status reply_to w =
     (let (t_created, w1) = now_isoformat w;
          (t_updated, w2) = now_isoformat w1;
          (uid, w3) = uuid4 w2
      in (\<lparr> e_schema = ''company.a2a.v1'',
            e_type = ''task.update'',
            e_routing = \<lparr> r_project_id = project_id,
                          r_from = ''agent:'' @ from_agent,
                          r_to = ''broadcast'',
                          r_reply_to = Some reply_to \<rparr>,
            e_payload_text = progress_text,
            e_status = (case status of None \<Rightarrow> ''processing'' | Some s \<Rightarrow> s),
            e_timestamps = Some \<lparr> created = t_created, updated = t_updated \<rparr>,
            e_id = uid \<rparr>, w3))"

subsection \<open>SolarDatabaseAdapter\<close>

text \<open>
  The result is \<open>Inr (Some row)\<close> for the inserted row, \<open>Inr None\<close> for Python's \<open>None\<close>
  (the insert reported no data), and \<open>Inl e\<close> when an exception leaves the method.
\<close>

definition send_envelope ::
  "envelope \<Rightarrow> string \<Rightarrow> world \<Rightarrow> (error + message option) \<times> world" where
  "send_envelope env human_id w =
     (let from_agent = replace (r_from (e_routing env)) ''agent:'' '''';
          to_agent = replace (r_to (e_routing env)) ''agent:'' ''''
      in case r_reply_to (e_routing env) of
           None \<Rightarrow> (Inl (KeyError ''reply_to''), w)
         | Some reply_to \<Rightarrow>
             (let db_data = \<lparr> m_id = e_id env,
                              m_project_id = r_project_id (e_routing env),
                              m_human_id = human_id,
                              m_agent_name = from_agent,
                              m_to_agent = (if to_agent \<noteq> ''broadcast'' then to_agent
                                            else ''broadcast''),
                              m_intent = e_payload_text env,
                              m_status = e_status env,
                              m_content = env,
                              m_reply_to = reply_to,
                              m_telemetry = None \<rparr>
              in case insert_row db_data w of
                   (Inl e, w') \<Rightarrow> (Inl e, w')
                 | (Inr [], w') \<Rightarrow> (Inr None, w')
                 | (Inr (r # rs), w') \<Rightarrow> (Inr (Some r), w')))"

section \<open>moon\_agent.py: the coordinator\<close>

subsection \<open>State\<close>

record task =
  t_id :: string
  t_text :: string
  t_project_id :: string

text \<open>The analysis dictionary; its values come from the decoded reply.\<close>

record analysis =
  complexity :: json
  requires_worker :: json
  estimated_minutes :: json
  reasoning :: json

text \<open>The dictionary \<open>{status, result, details}\<close> that describes a worker's answer.\<close>

record worker_reply =
  wr_status :: string
  wr_result :: string
  wr_details :: string

text \<open>The value under \<open>worker_response\<close>: a plain string or such a dictionary.\<close>

datatype response = Text string | Reply worker_reply

record pending =
  worker_message_id :: string
  original_task_id :: string

record run_telemetry =
  coordinator_model :: string
  worker_model :: string
  total_processing_time :: string

record final_result =
  fr_task_id :: string
  fr_status :: string
  summary :: string
  worker_contribution :: response
  completed_at :: string
  fr_telemetry :: run_telemetry

record CoordinatorMoonState =
  current_task :: "task option"
  worker_response :: "response list"
  task_status :: string
  processed_messages :: "string set"
  latest_worker_response :: "worker_reply option"
  pending_delegation :: "pending option"

text \<open>
  The coordinator object: \<open>human_user\<close> is the id of the signed-in user, \<open>None\<close> before
  \<open>authenticate\<close> has succeeded.
\<close>

record CoordinatorMoon =
  agent_name :: string
  human_user :: "string option"
  state :: CoordinatorMoonState

text \<open>
  The dictionary the workflow threads through its nodes (\<open>Dict[str, Any]\<close>): one option
  per key, \<open>None\<close> for a key that is not there. A node's return value is the next state.
\<close>

record coord_flow =
  incoming_message :: "message option"
  cf_status :: "string option"
  cf_task :: "task option"
  cf_analysis :: "analysis option"
  delegation_sent :: "bool option"
  delegation_id :: "string option"
  cf_error :: "string option"
  cf_worker_response :: "response option"
  cf_final_result :: "final_result option"
  completion_sent :: "bool option"
  completion_id :: "string option"

definition no_keys :: coord_flow where
  "no_keys = \<lparr> incoming_message = None, cf_status = None, cf_task = None, cf_analysis = None,
       delegation_sent = None, delegation_id = None, cf_error = None,
       cf_worker_response = None, cf_final_result = None, completion_sent = None,
       completion_id = None \<rparr>"

text \<open>
  The value of key \<open>k\<close> in \<open>{k: v, **state}\<close>: the entries of \<open>state\<close> come later in the
  literal, so a key that \<open>state\<close> already has keeps its old value.
\<close>

definition spread :: "'a \<Rightarrow> 'a option \<Rightarrow> 'a option" where
  "spread v old = (case old of None \<Rightarrow> Some v | Some x \<Rightarrow> Some x)"

subsection \<open>The six nodes\<close>

definition receive_task_node ::
  "CoordinatorMoon \<Rightarrow> coord_flow \<Rightarrow> world \<Rightarrow> (error + coord_flow) \<times> CoordinatorMoon \<times> world"
  where
  "receive_task_node c st w =
     (case incoming_message st of
        None \<Rightarrow> (Inr (no_keys\<lparr>cf_status := Some ''no_task''\<rparr>), c, w)
      | Some task_message \<Rightarrow>
          (let t = \<lparr> t_id = m_id task_message,
                     t_text = m_intent task_message,
                     t_project_id = m_project_id task_message \<rparr>
           in (Inr (no_keys\<lparr>cf_status := Some ''task_received'', cf_task := Some t\<rparr>),
               c\<lparr>state := (state c)\<lparr>current_task := Some t\<rparr>\<rparr>, w)))"

text \<open>The analysis both exception handlers of \<open>_analyze_task_node\<close> assign.\<close>

definition handler_analysis :: analysis where
  "handler_analysis =
     \<lparr> complexity = JStr ''Not given'', requires_worker = JBool False,
       estimated_minutes = JNull, reasoning = JStr ''None given'' \<rparr>"

text \<open>\<open>d.get(k, default)\<close> on a decoded object.\<close>

definition dict_get :: "(string \<times> json) list \<Rightarrow> string \<Rightarrow> json \<Rightarrow> json" where
  "dict_get kvs k d = (case map_of kvs k of None \<Rightarrow> d | Some v \<Rightarrow> v)"

text \<open>The reply with a Markdown code fence removed: the first and the last line go.\<close>

definition unfence :: "string \<Rightarrow> string" where
  "unfence response =
     (if startswith (strip response) [CHR 0x60, CHR 0x60, CHR 0x60]
      then join [CHR 0x0A] (butlast (tl (split (strip response) (CHR 0x0A))))
      else response)"

text \<open>
  The \<open>try\<close> block calls the model, takes \<open>message.content[0].text\<close>, removes a code fence,
  decodes the text and reads four keys with \<open>get\<close>.
  \<^item> If the call raises, or the message has no content block, \<open>except Exception\<close> runs
    while \<open>response\<close> is still unassigned; its second \<open>print\<close> formats \<open>response\<close> and
    raises \<open>UnboundLocalError\<close>, which leaves the node.
  \<^item> If \<open>json.loads\<close> raises \<open>JSONDecodeError\<close>, that handler runs while \<open>analysis\<close> is
    still unassigned; its second \<open>print\<close> formats \<open>analysis['reasoning']\<close> and raises
    \<open>UnboundLocalError\<close>, which leaves the node.
  \<^item> If \<open>json.loads\<close> raises another exception, or the text decodes to a value that
    is not an object, so that \<open>get\<close> raises \<open>AttributeError\<close>, then \<open>except Exception\<close>
    runs with \<open>response\<close> assigned and the node returns the handler's analysis.
\<close>

definition analyze_task_node ::
  "CoordinatorMoon \<Rightarrow> coord_flow \<Rightarrow> world \<Rightarrow> (error + coord_flow) \<times> CoordinatorMoon \<times> world"
  where
  "analyze_task_node c st w =
     (case cf_task st of
        None \<Rightarrow> (Inl (KeyError ''task''), c, w)
      | Some t \<Rightarrow>
          (case call_advisor w of
             (AdvisorRaises e, w1) \<Rightarrow> (Inl (UnboundLocalError ''response''), c, w1)
           | (AdvisorReply [] tin tout, w1) \<Rightarrow> (Inl (UnboundLocalError ''response''), c, w1)
           | (AdvisorReply (text # blocks) tin tout, w1) \<Rightarrow>
               (case json_loads w1 (unfence text) of
                  NotJSON \<Rightarrow> (Inl (UnboundLocalError ''analysis''), c, w1)
                | DecodeRaises e \<Rightarrow>
                    (Inr (st\<lparr>cf_analysis := spread handler_analysis (cf_analysis st)\<rparr>), c, w1)
                | Decoded (JDict claude_results) \<Rightarrow>
                    (let a = \<lparr> complexity = dict_get claude_results ''complexity'' (JStr ''Not given''),
                               requires_worker =
                                 dict_get claude_results ''requires_worker'' (JStr ''Not given''),
                               estimated_minutes = dict_get claude_results ''estimated_minutes'' JNull,
                               reasoning =
                                 dict_get claude_results ''reasoning'' (JStr ''No reasoning given'') \<rparr>
                     in (Inr (st\<lparr>cf_analysis := spread a (cf_analysis st)\<rparr>), c, w1))
                | Decoded other \<Rightarrow>
                    (Inr (st\<lparr>cf_analysis := spread handler_analysis (cf_analysis st)\<rparr>), c, w1))))"

text \<open>
  The row and the envelope are given an id each, the envelope's first. Reading
  \<open>self.human_user.id\<close> raises \<open>AttributeError\<close> when nobody is signed in. The insert and
  the read-back of the inserted row are inside \<open>try\<close>: whatever they raise becomes
  \<open>delegation_sent = False\<close> with the error text.
\<close>

definition delegate_to_worker_node ::
  "CoordinatorMoon \<Rightarrow> coord_flow \<Rightarrow> world \<Rightarrow> (error + coord_flow) \<times> CoordinatorMoon \<times> world"
  where
  "delegate_to_worker_node c st w =
     (case cf_task st of
        None \<Rightarrow> (Inl (KeyError ''task''), c, w)
      | Some t \<Rightarrow>
     (case cf_analysis st of
        None \<Rightarrow> (Inl (KeyError ''analysis''), c, w)
      | Some a \<Rightarrow>
          if truthy (requires_worker a) then
            (let (envelope_id, w1) = uuid4 w;
                 envelope_content =
                   \<lparr> e_schema = ''company.a2a.v1'', e_type = ''task.update'',
                     e_routing = \<lparr> r_project_id = t_project_id t, r_from = agent_name c,
                                   r_to = ''worker'', r_reply_to = None \<rparr>,
                     e_payload_text = ''WORK_REQUEST: '' @ t_text t,
                     e_status = ''sent'', e_timestamps = None, e_id = envelope_id \<rparr>;
                 (row_id, w2) = uuid4 w1
             in case human_user c of
                  None \<Rightarrow> (Inl (AttributeError ''id''), c, w2)
                | Some human_id \<Rightarrow>
                    (let message_data =
                           \<lparr> m_id = row_id, m_project_id = t_project_id t,
                             m_human_id = human_id, m_agent_name = agent_name c,
                             m_to_agent = ''worker'',
                             m_intent = ''WORK_REQUEST: '' @ t_text t,
                             m_status = ''sent'', m_content = envelope_content,
                             m_reply_to = Some (t_id t), m_telemetry = None \<rparr>
                     in case insert_row message_data w2 of
                          (Inl e, w3) \<Rightarrow>
                            (Inr (st\<lparr>delegation_sent := spread False (delegation_sent st),
                                     cf_error := spread (str e) (cf_error st)\<rparr>), c, w3)
                        | (Inr [], w3) \<Rightarrow>
                            (Inr (st\<lparr>delegation_sent := spread False (delegation_sent st),
                                     cf_error := spread ''Insert failed'' (cf_error st)\<rparr>), c, w3)
                        | (Inr (sent # rest), w3) \<Rightarrow>
                            (case select_by_id (m_id sent) w3 of
                               (Inl e, w4) \<Rightarrow>
                                 (Inr (st\<lparr>delegation_sent := spread False (delegation_sent st),
                                          cf_error := spread (str e) (cf_error st)\<rparr>), c, w4)
                             | (Inr verify, w4) \<Rightarrow>
                                 (Inr (st\<lparr>delegation_sent := spread True (delegation_sent st),
                                          delegation_id := spread (m_id sent) (delegation_id st)\<rparr>),
                                  c\<lparr>state := (state c)\<lparr>pending_delegation :=
                                       Some \<lparr> worker_message_id = m_id sent,
                                              original_task_id = t_id t \<rparr>\<rparr>\<rparr>,
                                  w4))))
          else (Inr (st\<lparr>delegation_sent := spread False (delegation_sent st)\<rparr>), c, w)))"

text \<open>The value used when a delegation was sent and no completion has been captured.\<close>

definition placeholder_reply :: worker_reply where
  "placeholder_reply =
     \<lparr> wr_status = ''Completed'', wr_result = ''Task processed successfully'',
       wr_details = ''Worker completed the analysis'' \<rparr>"

definition wait_for_response_node ::
  "CoordinatorMoon \<Rightarrow> coord_flow \<Rightarrow> world \<Rightarrow> (error + coord_flow) \<times> CoordinatorMoon \<times> world"
  where
  "wait_for_response_node c st w =
     (if delegation_sent st \<noteq> Some True
      then (Inr (st\<lparr>cf_worker_response :=
                     spread (Text ''Handled directly'') (cf_worker_response st)\<rparr>), c, w)
      else (let latest =
                  (case latest_worker_response (state c) of
                     Some r \<Rightarrow> r
                   | None \<Rightarrow> placeholder_reply)
            in (Inr (st\<lparr>cf_worker_response :=
                          spread (Reply latest) (cf_worker_response st)\<rparr>), c, w)))"

definition consolidate_results_node ::
  "CoordinatorMoon \<Rightarrow> coord_flow \<Rightarrow> world \<Rightarrow> (error + coord_flow) \<times> CoordinatorMoon \<times> world"
  where
  "consolidate_results_node c st w =
     (case cf_task st of
        None \<Rightarrow> (Inl (KeyError ''task''), c, w)
      | Some t \<Rightarrow>
     (case cf_worker_response st of
        None \<Rightarrow> (Inl (KeyError ''worker_response''), c, w)
      | Some contribution \<Rightarrow>
          (let (t_now, w1) = now_isoformat w;
               fr = \<lparr> fr_task_id = t_id t, fr_status = ''completed'',
                      summary = ''Task completed with worker assistance'',
                      worker_contribution = contribution, completed_at = t_now,
                      fr_telemetry = \<lparr> coordinator_model = ''claude-3.5-sonnet'',
                                       worker_model = ''gpt-4'',
                                       total_processing_time = ''3.2s'' \<rparr> \<rparr>
           in (Inr (st\<lparr>cf_final_result := spread fr (cf_final_result st)\<rparr>), c, w1))))"

text \<open>
  The insert is not guarded here: its exception leaves the node, and a response without
  data makes \<open>sent.data[0]\<close> raise \<open>IndexError\<close>.
\<close>

definition complete_task_node ::
  "CoordinatorMoon \<Rightarrow> coord_flow \<Rightarrow> world \<Rightarrow> (error + coord_flow) \<times> CoordinatorMoon \<times> world"
  where
  "complete_task_node c st w =
     (case cf_final_result st of
        None \<Rightarrow> (Inl (KeyError ''final_result''), c, w)
      | Some fr \<Rightarrow>
     (case cf_task st of
        None \<Rightarrow> (Inl (KeyError ''task''), c, w)
      | Some t \<Rightarrow>
          (let (envelope_id, w1) = uuid4 w;
               envelope_content =
                 \<lparr> e_schema = ''company.a2a.v1'', e_type = ''task.update'',
                   e_routing = \<lparr> r_project_id = t_project_id t, r_from = agent_name c,
                                 r_to = ''broadcast'', r_reply_to = None \<rparr>,
                   e_payload_text = ''TASK_COMPLETE: '' @ summary fr,
                   e_status = ''done'', e_timestamps = None, e_id = envelope_id \<rparr>;
               (row_id, w2) = uuid4 w1
           in case human_user c of
                None \<Rightarrow> (Inl (AttributeError ''id''), c, w2)
              | Some human_id \<Rightarrow>
                  (let completion_data =
                         \<lparr> m_id = row_id, m_project_id = t_project_id t,
                           m_human_id = human_id, m_agent_name = agent_name c,
                           m_to_agent = ''broadcast'',
                           m_intent = ''TASK_COMPLETE: '' @ summary fr,
                           m_status = ''done'', m_content = envelope_content,
                           m_reply_to = Some (t_id t), m_telemetry = None \<rparr>
                   in case insert_row completion_data w2 of
                        (Inl e, w3) \<Rightarrow> (Inl e, c, w3)
                      | (Inr [], w3) \<Rightarrow> (Inl (IndexError ''list index out of range''), c, w3)
                      | (Inr (sent # rest), w3) \<Rightarrow>
                          (Inr (st\<lparr>completion_sent := spread True (completion_sent st),
                                   completion_id := spread (m_id sent) (completion_id st)\<rparr>),
                           c\<lparr>state := (state c)\<lparr>current_task := None, task_status := ''idle''\<rparr>\<rparr>,
                           w3)))))"

subsection \<open>The workflow and the dispatch of a message\<close>

text \<open>One edge of the graph: the next node runs on what the last one returned.\<close>

definition and_then ::
  "(error + 'f) \<times> 'a \<times> world \<Rightarrow> ('a \<Rightarrow> 'f \<Rightarrow> world \<Rightarrow> (error + 'f) \<times> 'a \<times> world)
     \<Rightarrow> (error + 'f) \<times> 'a \<times> world" where
  "and_then r node =
     (case r of
        (Inl e, c, w) \<Rightarrow> (Inl e, c, w)
      | (Inr st, c, w) \<Rightarrow> node c st w)"

definition workflow ::
  "CoordinatorMoon \<Rightarrow> coord_flow \<Rightarrow> world \<Rightarrow> (error + coord_flow) \<times> CoordinatorMoon \<times> world"
  where
  "workflow c initial_state w =
     and_then (and_then (and_then (and_then (and_then
       (receive_task_node c initial_state w)
       analyze_task_node) delegate_to_worker_node) wait_for_response_node)
       consolidate_results_node) complete_task_node"

text \<open>
  What one call of \<open>process_incoming_message\<close> or \<open>process_work_request\<close> did with the
  message: returned at the membership test, captured a worker completion, dropped the
  message at the routing guard, or ran the workflow (with its final state or the
  exception it raised).
\<close>

datatype 'f dispatch = Skipped | Captured | Ignored | Ran "error + 'f"

text \<open>
  The coordinator does not catch what the workflow raises: with \<open>Ran (Inl e)\<close> the
  exception \<open>e\<close> leaves \<open>process_incoming_message\<close>.
\<close>

definition process_incoming_message ::
  "CoordinatorMoon \<Rightarrow> message \<Rightarrow> world \<Rightarrow> coord_flow dispatch \<times> CoordinatorMoon \<times> world"
  where
  "process_incoming_message c message_data w =
     (if m_id message_data \<in> processed_messages (state c) then (Skipped, c, w)
      else
        (let c1 = c\<lparr>state := (state c)\<lparr>processed_messages :=
                      insert (m_id message_data) (processed_messages (state c))\<rparr>\<rparr>
         in if startswith (m_intent message_data) ''WORK_COMPLETE:'' then
              (Captured,
               c1\<lparr>state := (state c1)\<lparr>latest_worker_response :=
                    Some \<lparr> wr_status = ''Completed'',
                           wr_result = replace (m_intent message_data) ''WORK_COMPLETE: '' [],
                           wr_details = ''Worker completed successfully'' \<rparr>\<rparr>\<rparr>,
               w)
            else if \<not> (startswith (m_intent message_data) ''WORK_REQUEST:''
                       \<or> startswith (m_intent message_data) ''TASK_COMPLETE:'') then
              (case workflow c1 (no_keys\<lparr>incoming_message := Some message_data\<rparr>) w of
                 (result, c2, w2) \<Rightarrow> (Ran result, c2, w2))
            else (Ignored, c1, w)))"

text \<open>The calls one coordinator makes over time, in order, each with the message's id.\<close>

fun dispatch_all ::
  "CoordinatorMoon \<Rightarrow> message list \<Rightarrow> world
     \<Rightarrow> (string \<times> coord_flow dispatch) list \<times> CoordinatorMoon \<times> world" where
  "dispatch_all c [] w = ([], c, w)"
| "dispatch_all c (m # ms) w =
     (case process_incoming_message c m w of
        (d, c1, w1) \<Rightarrow>
          (case dispatch_all c1 ms w1 of
             (ds, c2, w2) \<Rightarrow> ((m_id m, d) # ds, c2, w2)))"

section \<open>backend/moon\_agent\_two.py: the worker\<close>

subsection \<open>State\<close>

record request =
  rq_id :: string
  rq_text :: string
  rq_project_id :: string
  original_message :: message

record request_analysis =
  analysis_type :: string
  prompt_template :: string
  request_complexity :: string
  estimated_time :: real

text \<open>
  The \<open>ai_response\<close> dictionary: \<open>tokens_used\<close> is there after a successful call only,
  \<open>error\<close> after a failed one only.
\<close>

record ai_reply =
  ai_content :: string
  ai_model :: string
  ai_processing_time_ms :: int
  tokens_used :: "nat option"
  ai_error :: "string option"
  ai_analysis_type :: string

record formatted =
  f_summary :: string
  detailed_analysis :: string
  f_metadata :: metadata

record WorkerState =
  current_request :: "request option"
  analysis_result :: "request_analysis option"
  wk_processed_messages :: "string set"
  ai_response :: "ai_reply option"

record EnhancedWorkerMoon =
  wk_agent_name :: string
  wk_human_user :: "string option"
  wk_state :: WorkerState

record worker_flow =
  work_request :: "message option"
  wf_status :: "string option"
  wf_request :: "request option"
  wf_analysis :: "request_analysis option"
  wf_ai_response :: "ai_reply option"
  formatted_response :: "formatted option"
  summary_text :: "string option"
  result_sent :: "bool option"
  result_id :: "string option"
  wf_error :: "string option"

definition no_worker_keys :: worker_flow where
  "no_worker_keys = \<lparr> work_request = None, wf_status = None, wf_request = None,
       wf_analysis = None, wf_ai_response = None, formatted_response = None,
       summary_text = None, result_sent = None, result_id = None, wf_error = None \<rparr>"

subsection \<open>The five nodes\<close>

definition receive_request_node ::
  "EnhancedWorkerMoon \<Rightarrow> worker_flow \<Rightarrow> world
     \<Rightarrow> (error + worker_flow) \<times> EnhancedWorkerMoon \<times> world" where
  "receive_request_node k st w =
     (case work_request st of
        None \<Rightarrow> (Inr (no_worker_keys\<lparr>wf_status := Some ''no_request''\<rparr>), k, w)
      | Some request_message \<Rightarrow>
          (let rq = \<lparr> rq_id = m_id request_message,
                      rq_text = replace (m_intent request_message) ''WORK_REQUEST: '' [],
                      rq_project_id = m_project_id request_message,
                      original_message = request_message \<rparr>
           in (Inr (no_worker_keys\<lparr>wf_status := Some ''request_received'',
                                    wf_request := Some rq\<rparr>),
               k\<lparr>wk_state := (wk_state k)\<lparr>current_request := Some rq\<rparr>\<rparr>, w)))"

text \<open>\<open>any(keyword in text for keyword in keywords)\<close>.\<close>

definition any_keyword :: "string list \<Rightarrow> string \<Rightarrow> bool" where
  "any_keyword keywords text = list_ex (\<lambda>keyword. contains text keyword) keywords"

definition analyze_request_node ::
  "EnhancedWorkerMoon \<Rightarrow> worker_flow \<Rightarrow> world
     \<Rightarrow> (error + worker_flow) \<times> EnhancedWorkerMoon \<times> world" where
  "analyze_request_node k st w =
     (case wf_request st of
        None \<Rightarrow> (Inl (KeyError ''request''), k, w)
      | Some rq \<Rightarrow>
          (let request_text = lower (rq_text rq);
               (kind, template) =
                 (if any_keyword [''security'', ''vulnerability'', ''exploit''] request_text
                  then (''security_review'', ''security_analysis'')
                  else if any_keyword [''code'', ''review'', ''bug'', ''error''] request_text
                  then (''code_review'', ''code_analysis'')
                  else if any_keyword [''test'', ''testing'', ''qa''] request_text
                  then (''test_analysis'', ''test_strategy'')
                  else (''general_analysis'', ''general_task''));
               (t_now, w1) = time_time w;
               a = \<lparr> analysis_type = kind,
                     prompt_template = template,
                     request_complexity = (if length (rq_text rq) > 50 then ''high'' else ''medium''),
                     estimated_time = t_now \<rparr>
           in (Inr (st\<lparr>wf_analysis := spread a (wf_analysis st)\<rparr>), k, w1)))"

text \<open>\<open>int(x)\<close> on a float: truncation towards zero.\<close>

definition int_of_float :: "real \<Rightarrow> int" where
  "int_of_float x = (if 0 \<le> x then \<lfloor>x\<rfloor> else \<lceil>x\<rceil>)"

text \<open>The answer the worker makes up when the call of the model fails.\<close>

definition fallback_response :: "string \<Rightarrow> string" where
  "fallback_response text =
     ''Analysis completed for '' @ [CHR 0x27] @ take 50 text @ ''...'' @ [CHR 0x27]
       @ ''. Unable to connect to AI model, providing basic analysis.''"

text \<open>
  The prompt chosen by \<open>prompt_template\<close> is an argument of the call; what the model
  answers is the environment's choice. Everything the \<open>try\<close> block raises (the call, or
  \<open>message.content[0]\<close> on a message without content) ends in the fallback answer.
\<close>

definition call_ai_model_node ::
  "EnhancedWorkerMoon \<Rightarrow> worker_flow \<Rightarrow> world
     \<Rightarrow> (error + worker_flow) \<times> EnhancedWorkerMoon \<times> world" where
  "call_ai_model_node k st w =
     (case wf_request st of
        None \<Rightarrow> (Inl (KeyError ''request''), k, w)
      | Some rq \<Rightarrow>
     (case wf_analysis st of
        None \<Rightarrow> (Inl (KeyError ''analysis''), k, w)
      | Some a \<Rightarrow>
          (let fallback = (\<lambda>e. \<lparr> ai_content = fallback_response (rq_text rq),
                                  ai_model = ''fallback'',
                                  ai_processing_time_ms = 100,
                                  tokens_used = None,
                                  ai_error = Some e,
                                  ai_analysis_type = analysis_type a \<rparr>);
               (start_time, w1) = time_time w
           in case call_advisor w1 of
                (AdvisorRaises e, w2) \<Rightarrow>
                  (Inr (st\<lparr>wf_ai_response := spread (fallback e) (wf_ai_response st)\<rparr>),
                   k\<lparr>wk_state := (wk_state k)\<lparr>ai_response := Some (fallback e)\<rparr>\<rparr>, w2)
              | (AdvisorReply blocks input_tokens output_tokens, w2) \<Rightarrow>
                  (let (end_time, w3) = time_time w2;
                       processing_time = int_of_float ((end_time - start_time) * 1000)
                   in case blocks of
                        [] \<Rightarrow>
                          (let r = fallback ''list index out of range''
                           in (Inr (st\<lparr>wf_ai_response := spread r (wf_ai_response st)\<rparr>),
                               k\<lparr>wk_state := (wk_state k)\<lparr>ai_response := Some r\<rparr>\<rparr>, w3))
                      | text # rest \<Rightarrow>
                          (let r = \<lparr> ai_content = text,
                                     ai_model = ''claude-3-sonnet-20240229'',
                                     ai_processing_time_ms = processing_time,
                                     tokens_used = Some (input_tokens + output_tokens),
                                     ai_error = None,
                                     ai_analysis_type = analysis_type a \<rparr>
                           in (Inr (st\<lparr>wf_ai_response := spread r (wf_ai_response st)\<rparr>),
                               k\<lparr>wk_state := (wk_state k)\<lparr>ai_response := Some r\<rparr>\<rparr>, w3))))))"

definition format_response_node ::
  "EnhancedWorkerMoon \<Rightarrow> worker_flow \<Rightarrow> world
     \<Rightarrow> (error + worker_flow) \<times> EnhancedWorkerMoon \<times> world" where
  "format_response_node k st w =
     (case wf_ai_response st of
        None \<Rightarrow> (Inl (KeyError ''ai_response''), k, w)
      | Some ai \<Rightarrow>
     (case wf_analysis st of
        None \<Rightarrow> (Inl (KeyError ''analysis''), k, w)
      | Some a \<Rightarrow>
     (case wf_request st of
        None \<Rightarrow> (Inl (KeyError ''request''), k, w)
      | Some rq \<Rightarrow>
          (let (t_now, w1) = now_isoformat w;
               f = \<lparr> f_summary = ''AI-powered '' @ analysis_type a @ '' completed'',
                     detailed_analysis = ai_content ai,
                     f_metadata = \<lparr> model_used = ai_model ai,
                                    processing_time_ms = ai_processing_time_ms ai,
                                    md_analysis_type = ai_analysis_type ai,
                                    request_id = rq_id rq,
                                    worker_agent = wk_agent_name k,
                                    md_completed_at = t_now \<rparr> \<rparr>;
               text = f_summary f @ '': '' @ take 100 (ai_content ai) @ ''...''
           in (Inr (st\<lparr>formatted_response := spread f (formatted_response st),
                        summary_text := spread text (summary_text st)\<rparr>), k, w1)))))"

text \<open>
  As in the coordinator the envelope's id is drawn first, the row's second, and
  \<open>self.human_user.id\<close> is read before the \<open>try\<close>. Inside it, an exception of the insert
  and the \<open>IndexError\<close> of \<open>sent.data[0]\<close> on a response without data both become
  \<open>result_sent = False\<close>.
\<close>

definition send_result_node ::
  "EnhancedWorkerMoon \<Rightarrow> worker_flow \<Rightarrow> world
     \<Rightarrow> (error + worker_flow) \<times> EnhancedWorkerMoon \<times> world" where
  "send_result_node k st w =
     (case wf_request st of
        None \<Rightarrow> (Inl (KeyError ''request''), k, w)
      | Some rq \<Rightarrow>
     (case formatted_response st of
        None \<Rightarrow> (Inl (KeyError ''formatted_response''), k, w)
      | Some f \<Rightarrow>
     (case summary_text st of
        None \<Rightarrow> (Inl (KeyError ''summary_text''), k, w)
      | Some text \<Rightarrow>
          (let (envelope_id, w1) = uuid4 w;
               envelope_content =
                 \<lparr> e_schema = ''company.a2a.v1'', e_type = ''task.update'',
                   e_routing = \<lparr> r_project_id = rq_project_id rq, r_from = wk_agent_name k,
                                 r_to = ''coordinator'', r_reply_to = None \<rparr>,
                   e_payload_text = ''WORK_COMPLETE: '' @ text,
                   e_status = ''done'', e_timestamps = None, e_id = envelope_id \<rparr>;
               (row_id, w2) = uuid4 w1
           in case wk_human_user k of
                None \<Rightarrow> (Inl (AttributeError ''id''), k, w2)
              | Some human_id \<Rightarrow>
                  (let completion_data =
                         \<lparr> m_id = row_id, m_project_id = rq_project_id rq,
                           m_human_id = human_id, m_agent_name = wk_agent_name k,
                           m_to_agent = ''coordinator'',
                           m_intent = ''WORK_COMPLETE: '' @ text,
                           m_status = ''done'', m_content = envelope_content,
                           m_reply_to = Some (rq_id rq),
                           m_telemetry = Some (f_metadata f) \<rparr>
                   in case insert_row completion_data w2 of
                        (Inl e, w3) \<Rightarrow>
                          (Inr (st\<lparr>result_sent := spread False (result_sent st),
                                   wf_error := spread (str e) (wf_error st)\<rparr>), k, w3)
                      | (Inr [], w3) \<Rightarrow>
                          (Inr (st\<lparr>result_sent := spread False (result_sent st),
                                   wf_error := spread ''list index out of range'' (wf_error st)\<rparr>),
                           k, w3)
                      | (Inr (sent # rest), w3) \<Rightarrow>
                          (Inr (st\<lparr>result_sent := spread True (result_sent st),
                                   result_id := spread (m_id sent) (result_id st)\<rparr>),
                           k\<lparr>wk_state := (wk_state k)\<lparr>current_request := None,
                                                        ai_response := None\<rparr>\<rparr>,
                           w3))))))"

subsection \<open>The workflow and the dispatch of a work request\<close>

definition worker_workflow ::
  "EnhancedWorkerMoon \<Rightarrow> worker_flow \<Rightarrow> world
     \<Rightarrow> (error + worker_flow) \<times> EnhancedWorkerMoon \<times> world" where
  "worker_workflow k initial_state w =
     and_then (and_then (and_then (and_then
       (receive_request_node k initial_state w)
       analyze_request_node) call_ai_model_node) format_response_node) send_result_node"

text \<open>
  The worker catches what its workflow raises: with \<open>Ran (Inl e)\<close> the exception was
  printed and \<open>process_work_request\<close> returned.
\<close>

definition process_work_request ::
  "EnhancedWorkerMoon \<Rightarrow> message \<Rightarrow> world
     \<Rightarrow> worker_flow dispatch \<times> EnhancedWorkerMoon \<times> world" where
  "process_work_request k message_data w =
     (if m_id message_data \<in> wk_processed_messages (wk_state k) then (Skipped, k, w)
      else
        (let k1 = k\<lparr>wk_state := (wk_state k)\<lparr>wk_processed_messages :=
                      insert (m_id message_data) (wk_processed_messages (wk_state k))\<rparr>\<rparr>
         in case worker_workflow k1 (no_worker_keys\<lparr>work_request := Some message_data\<rparr>) w of
              (result, k2, w2) \<Rightarrow> (Ran result, k2, w2)))"

text \<open>The calls one worker makes over time, in order, each with the message's id.\<close>

fun request_all ::
  "EnhancedWorkerMoon \<Rightarrow> message list \<Rightarrow> world
     \<Rightarrow> (string \<times> worker_flow dispatch) list \<times> EnhancedWorkerMoon \<times> world" where
  "request_all k [] w = ([], k, w)"
| "request_all k (m # ms) w =
     (case process_work_request k m w of
        (d, k1, w1) \<Rightarrow>
          (case request_all k1 ms w1 of
             (ds, k2, w2) \<Rightarrow> ((m_id m, d) # ds, k2, w2)))"

text \<open>The number of workflow runs recorded for message id \<open>i\<close>.\<close>

fun is_run :: "'f dispatch \<Rightarrow> bool" where
  "is_run (Ran r) = True"
| "is_run d = False"

definition runs_of :: "string \<Rightarrow> (string \<times> 'f dispatch) list \<Rightarrow> nat" where
  "runs_of i ds = length (filter (\<lambda>(j, d). j = i \<and> is_run d) ds)"

section \<open>Notions used in the statements\<close>

text \<open>The part of the coordinator that no node of the workflow assigns.\<close>

definition kept ::
  "CoordinatorMoon \<Rightarrow> string \<times> string option \<times> string set \<times> worker_reply option" where
  "kept c = (agent_name c, human_user c, processed_messages (state c),
             latest_worker_response (state c))"

text \<open>The part of the worker that no node of its workflow assigns.\<close>

definition wk_kept :: "EnhancedWorkerMoon \<Rightarrow> string \<times> string option \<times> string set" where
  "wk_kept k = (wk_agent_name k, wk_human_user k, wk_processed_messages (wk_state k))"

text \<open>The routing guard of the coordinator: the intents that never reach its workflow.\<close>

definition guarded :: "string \<Rightarrow> bool" where
  "guarded intent =
     (startswith intent ''WORK_COMPLETE:'' \<or> startswith intent ''WORK_REQUEST:''
      \<or> startswith intent ''TASK_COMPLETE:'')"

text \<open>
  Between the worlds \<open>w\<close> and \<open>w'\<close> the table only grew, and every row added has
  \<open>reply_to = i\<close>.
\<close>

definition replies_only :: "string \<Rightarrow> world \<Rightarrow> world \<Rightarrow> bool" where
  "replies_only i w w' =
     (take (length (messages w)) (messages w') = messages w
      \<and> list_all (\<lambda>row. m_reply_to row = Some i) (drop (length (messages w)) (messages w')))"

section \<open>A concrete environment\<close>

text \<open>
  A world with an empty table, a constant clock and a source of pairwise different ids,
  for evaluating the definitions; the database, the language model and \<open>json.loads\<close>
  are given.
\<close>

definition sample_world ::
  "(nat \<Rightarrow> store_fate) \<Rightarrow> (nat \<Rightarrow> advisor_outcome) \<Rightarrow> (string \<Rightarrow> decoding) \<Rightarrow> world" where
  "sample_world fates replies loads =
     \<lparr> messages = [], store_src = fates, store_calls = 0,
       uuid_src = (\<lambda>n. ''uuid-'' @ replicate n CHR ''0''), uuid_calls = 0,
       now_src = (\<lambda>n. ''2025-01-01T00:00:00''), now_calls = 0,
       time_src = (\<lambda>n. 0), time_calls = 0,
       advisor_src = replies, advisor_calls = 0,
       json_loads = loads \<rparr>"

text \<open>A signed-in coordinator and a signed-in worker that have processed nothing yet.\<close>

definition sample_coordinator :: CoordinatorMoon where
  "sample_coordinator =
     \<lparr> agent_name = ''coordinator'', human_user = Some ''human-1'',
       state = \<lparr> current_task = None, worker_response = [], task_status = ''idle'',
                 processed_messages = {}, latest_worker_response = None,
                 pending_delegation = None \<rparr> \<rparr>"

definition sample_worker :: EnhancedWorkerMoon where
  "sample_worker =
     \<lparr> wk_agent_name = ''worker'', wk_human_user = Some ''human-1'',
       wk_state = \<lparr> current_request = None, analysis_result = None,
                    wk_processed_messages = {}, ai_response = None \<rparr> \<rparr>"

text \<open>A row as the command line's \<open>send\<close> stores it, with the given id, recipient and intent.\<close>

definition sample_message :: "string \<Rightarrow> string \<Rightarrow> string \<Rightarrow> message" where
  "sample_message i recipient intent =
     \<lparr> m_id = i, m_project_id = ''test_project'', m_human_id = ''human-1'',
       m_agent_name = ''cli-user'', m_to_agent = recipient, m_intent = intent,
       m_status = ''sent'',
       m_content = \<lparr> e_schema = ''company.a2a.v1'', e_type = ''task.create'',
                     e_routing = \<lparr> r_project_id = ''test_project'', r_from = ''cli-user'',
                                   r_to = recipient, r_reply_to = None \<rparr>,
                     e_payload_text = intent, e_status = ''sent'', e_timestamps = None,
                     e_id = ''envelope-'' @ i \<rparr>,
       m_reply_to = None, m_telemetry = None \<rparr>"

text \<open>
  The text \<open>{"complexity": "high", "requires_worker": true}\<close>, a model that answers
  every call with it, a model that answers every call with the text \<open>[]\<close>, a model that
  answers with a text that is not JSON, a model whose every call raises, and
  \<open>json.loads\<close> on these texts.
\<close>

definition object_text :: string where
  "object_text =
     ''{'' @ [CHR 0x22] @ ''complexity'' @ [CHR 0x22] @ '': '' @ [CHR 0x22] @ ''high''
       @ [CHR 0x22] @ '', '' @ [CHR 0x22] @ ''requires_worker'' @ [CHR 0x22] @ '': true}''"

definition sample_reply :: "nat \<Rightarrow> advisor_outcome" where
  "sample_reply n = AdvisorReply [object_text] 10 20"

definition list_reply :: "nat \<Rightarrow> advisor_outcome" where
  "list_reply n = AdvisorReply [''[]''] 10 20"

definition prose_reply :: "nat \<Rightarrow> advisor_outcome" where
  "prose_reply n = AdvisorReply [''This task needs a worker.''] 10 20"

definition no_reply :: "nat \<Rightarrow> advisor_outcome" where
  "no_reply n = AdvisorRaises ''Connection error.''"

definition sample_loads :: "string \<Rightarrow> decoding" where
  "sample_loads s =
     (if s = object_text
      then Decoded (JDict [(''complexity'', JStr ''high''), (''requires_worker'', JBool True)])
      else if s = ''[]'' then Decoded (JList [])
      else NotJSON)"

text \<open>The outcomes of \<open>json.loads\<close> on which \<open>analyze_task\<close> takes the handler's analysis.\<close>

fun takes_fallback :: "decoding \<Rightarrow> bool" where
  "takes_fallback (Decoded (JDict kvs)) = False"
| "takes_fallback (Decoded v) = True"
| "takes_fallback NotJSON = False"
| "takes_fallback (DecodeRaises e) = True"

text \<open>The workflow's state after \<open>receive_task\<close> has taken a task from message \<open>m1\<close>.\<close>

definition sample_task :: coord_flow where
  "sample_task =
     no_keys\<lparr>cf_status := Some ''task_received'',
             cf_task := Some \<lparr> t_id = ''m1'', t_text = ''Refactor the login module'',
                               t_project_id = ''test_project'' \<rparr>\<rparr>"

section \<open>Properties of the environment and the string primitives\<close>

lemma inj_sample_uuid: "inj (uuid_src (sample_world fates replies loads))"
  by (rule injI) (simp add: sample_world_def)

lemmas env_defs = uuid4_def now_isoformat_def time_time_def call_advisor_def

lemmas store_defs = insert_row_def select_by_id_def

lemmas node_defs = receive_task_node_def analyze_task_node_def delegate_to_worker_node_def
  wait_for_response_node_def consolidate_results_node_def complete_task_node_def
  and_then_def workflow_def

lemmas worker_node_defs = receive_request_node_def analyze_request_node_def
  call_ai_model_node_def format_response_node_def send_result_node_def
  and_then_def worker_workflow_def

lemmas sample_defs = sample_world_def sample_coordinator_def sample_worker_def
  sample_message_def sample_reply_def list_reply_def prose_reply_def no_reply_def
  object_text_def sample_loads_def

subsection \<open>What the workflows leave alone; the processed set\<close>

lemma and_then_Inr:
  "and_then r N = (Inr st', c', w') \<Longrightarrow> \<exists>st c w. r = (Inr st, c, w) \<and> N c st w = (Inr st', c', w')"
  by (auto simp: and_then_def split: prod.splits sum.splits)

lemma and_then_keeps:
  assumes "\<And>c st w. f (fst (snd (N c st w))) = f c"
  shows "f (fst (snd (and_then r N))) = f (fst (snd r))"
  using assms by (auto simp: and_then_def split: prod.splits sum.splits)

lemma receive_keeps: "kept (fst (snd (receive_task_node c st w))) = kept c"
  by (simp add: receive_task_node_def kept_def Let_def split: option.splits)

lemma analyze_keeps: "kept (fst (snd (analyze_task_node c st w))) = kept c"
  by (simp add: analyze_task_node_def kept_def Let_def
      split: option.splits prod.splits advisor_outcome.splits list.splits json.splits decoding.splits)

lemma delegate_keeps: "kept (fst (snd (delegate_to_worker_node c st w))) = kept c"
  by (simp add: delegate_to_worker_node_def kept_def Let_def
      split: option.splits prod.splits sum.splits list.splits)

lemma wait_keeps: "kept (fst (snd (wait_for_response_node c st w))) = kept c"
  by (simp add: wait_for_response_node_def kept_def Let_def)

lemma consolidate_keeps: "kept (fst (snd (consolidate_results_node c st w))) = kept c"
  by (simp add: consolidate_results_node_def kept_def Let_def split: option.splits prod.splits)

lemma complete_keeps: "kept (fst (snd (complete_task_node c st w))) = kept c"
  by (simp add: complete_task_node_def kept_def Let_def
      split: option.splits prod.splits sum.splits list.splits)

lemma workflow_keeps: "kept (fst (snd (workflow c st w))) = kept c"
  unfolding workflow_def
  by (simp add: and_then_keeps [where f = kept] receive_keeps analyze_keeps delegate_keeps
      wait_keeps consolidate_keeps complete_keeps)

lemma receive_request_keeps: "wk_kept (fst (snd (receive_request_node k st w))) = wk_kept k"
  by (simp add: receive_request_node_def wk_kept_def Let_def split: option.splits)

lemma analyze_request_keeps: "wk_kept (fst (snd (analyze_request_node k st w))) = wk_kept k"
  by (simp add: analyze_request_node_def wk_kept_def Let_def time_time_def
      split: option.splits prod.splits)

lemma call_ai_model_keeps: "wk_kept (fst (snd (call_ai_model_node k st w))) = wk_kept k"
  by (simp add: call_ai_model_node_def wk_kept_def Let_def
      split: option.splits prod.splits advisor_outcome.splits list.splits)

lemma format_response_keeps: "wk_kept (fst (snd (format_response_node k st w))) = wk_kept k"
  by (simp add: format_response_node_def wk_kept_def Let_def split: option.splits prod.splits)

lemma send_result_keeps: "wk_kept (fst (snd (send_result_node k st w))) = wk_kept k"
  by (simp add: send_result_node_def wk_kept_def Let_def
      split: option.splits prod.splits sum.splits list.splits)

lemma worker_workflow_keeps: "wk_kept (fst (snd (worker_workflow k st w))) = wk_kept k"
  unfolding worker_workflow_def
  by (simp add: and_then_keeps [where f = wk_kept] receive_request_keeps analyze_request_keeps
      call_ai_model_keeps format_response_keeps send_result_keeps)

lemma workflow_processed:
  "processed_messages (state (fst (snd (workflow c st w)))) = processed_messages (state c)"
  using workflow_keeps [of c st w] by (simp add: kept_def)

lemma worker_workflow_processed:
  "wk_processed_messages (wk_state (fst (snd (worker_workflow k st w))))
     = wk_processed_messages (wk_state k)"
  using worker_workflow_keeps [of k st w] by (simp add: wk_kept_def)

lemma ran_agent:
  "snd (case r of (result, rest) \<Rightarrow> (Ran result, rest)) = snd r"
  by (cases r) auto

lemma process_incoming_processed:
  "processed_messages (state (fst (snd (process_incoming_message c m w))))
     = insert (m_id m) (processed_messages (state c))"
  by (simp add: process_incoming_message_def Let_def ran_agent workflow_processed insert_absorb)

lemma process_incoming_is_run:
  "is_run (fst (process_incoming_message c m w))
     \<longleftrightarrow> m_id m \<notin> processed_messages (state c) \<and> \<not> guarded (m_intent m)"
  by (auto simp: process_incoming_message_def Let_def guarded_def split: prod.splits)

lemma dispatch_all_runs:
  "runs_of i (fst (dispatch_all c ms w))
     = (case find (\<lambda>m. m_id m = i) ms of
          None \<Rightarrow> 0
        | Some m \<Rightarrow> if i \<in> processed_messages (state c) \<or> guarded (m_intent m) then 0 else 1)"
proof (induction ms arbitrary: c w)
  case Nil
  show ?case by (simp add: runs_of_def)
next
  case (Cons m ms)
  obtain d c1 w1 where step: "process_incoming_message c m w = (d, c1, w1)"
    by (cases "process_incoming_message c m w") auto
  obtain ds c2 w2 where rest: "dispatch_all c1 ms w1 = (ds, c2, w2)"
    by (cases "dispatch_all c1 ms w1") auto
  have seen: "processed_messages (state c1) = insert (m_id m) (processed_messages (state c))"
    using process_incoming_processed [of c m w] step by simp
  have run: "is_run d \<longleftrightarrow> m_id m \<notin> processed_messages (state c) \<and> \<not> guarded (m_intent m)"
    using process_incoming_is_run [of c m w] step by simp
  have later: "runs_of i ds
     = (case find (\<lambda>m. m_id m = i) ms of
          None \<Rightarrow> 0
        | Some m' \<Rightarrow> if i \<in> processed_messages (state c1) \<or> guarded (m_intent m') then 0 else 1)"
    using Cons.IH [of c1 w1] rest by simp
  have split: "runs_of i (fst (dispatch_all c (m # ms) w))
     = (if m_id m = i \<and> is_run d then 1 else 0) + runs_of i ds"
    using step rest by (simp add: runs_of_def)
  show ?case
  proof (cases "m_id m = i")
    case True
    then have "runs_of i ds = 0"
      using later seen by (simp split: option.splits)
    with True split run show ?thesis by auto
  next
    case False
    then show ?thesis
      using split later seen by (auto split: option.splits)
  qed
qed

lemma process_work_processed:
  "wk_processed_messages (wk_state (fst (snd (process_work_request k m w))))
     = insert (m_id m) (wk_processed_messages (wk_state k))"
  by (simp add: process_work_request_def Let_def ran_agent worker_workflow_processed
      insert_absorb)

lemma process_work_is_run:
  "is_run (fst (process_work_request k m w)) \<longleftrightarrow> m_id m \<notin> wk_processed_messages (wk_state k)"
  by (auto simp: process_work_request_def Let_def split: prod.splits)

lemma request_all_runs:
  "runs_of i (fst (request_all k ms w))
     = (if i \<in> m_id ` set ms \<and> i \<notin> wk_processed_messages (wk_state k) then 1 else 0)"
proof (induction ms arbitrary: k w)
  case Nil
  show ?case by (simp add: runs_of_def)
next
  case (Cons m ms)
  obtain d k1 w1 where step: "process_work_request k m w = (d, k1, w1)"
    by (cases "process_work_request k m w") auto
  obtain ds k2 w2 where rest: "request_all k1 ms w1 = (ds, k2, w2)"
    by (cases "request_all k1 ms w1") auto
  have seen: "wk_processed_messages (wk_state k1)
      = insert (m_id m) (wk_processed_messages (wk_state k))"
    using process_work_processed [of k m w] step by simp
  have run: "is_run d \<longleftrightarrow> m_id m \<notin> wk_processed_messages (wk_state k)"
    using process_work_is_run [of k m w] step by simp
  have later: "runs_of i ds
     = (if i \<in> m_id ` set ms \<and> i \<notin> wk_processed_messages (wk_state k1) then 1 else 0)"
    using Cons.IH [of k1 w1] rest by simp
  have split: "runs_of i (fst (request_all k (m # ms) w))
     = (if m_id m = i \<and> is_run d then 1 else 0) + runs_of i ds"
    using step rest by (simp add: runs_of_def)
  show ?case
    using split later seen run by auto
qed

section \<open>Properties of envelope.py\<close>

lemma create_task_fst:
  "fst (create_task p f t x w) =
     \<lparr> e_schema = ''company.a2a.v1'', e_type = ''task.create'',
       e_routing = \<lparr> r_project_id = p, r_from = ''agent: '' @ f, r_to = ''agent:'' @ t,
                     r_reply_to = Some None \<rparr>,
       e_payload_text = x, e_status = ''sent'',
       e_timestamps = Some \<lparr> created = now_src w (now_calls w),
                              updated = now_src w (Suc (now_calls w)) \<rparr>,
       e_id = uuid_src w (uuid_calls w) \<rparr>"
  by (simp add: create_task_def env_defs)

lemma create_task_snd:
  "snd (create_task p f t x w) =
     w\<lparr> now_calls := Suc (Suc (now_calls w)), uuid_calls := Suc (uuid_calls w) \<rparr>"
  by (simp add: create_task_def env_defs)

lemma create_task_update_fst:
  "fst (create_task_update p f x st rt w) =
     \<lparr> e_schema = ''company.a2a.v1'', e_type = ''task.update'',
       e_routing = \<lparr> r_project_id = p, r_from = ''agent:'' @ f, r_to = ''broadcast'',
                     r_reply_to = Some rt \<rparr>,
       e_payload_text = x, e_status = (case st of None \<Rightarrow> ''processing'' | Some s \<Rightarrow> s),
       e_timestamps = Some \<lparr> created = now_src w (now_calls w),
                              updated = now_src w (Suc (now_calls w)) \<rparr>,
       e_id = uuid_src w (uuid_calls w) \<rparr>"
  by (simp add: create_task_update_def env_defs)

text \<open>
  C6. Every envelope of \<open>create_task\<close> has status \<open>sent\<close> and type \<open>task.create\<close>; its id
  is the next draw of \<open>uuid.uuid4()\<close>, and the call consumes that draw, so with a generator
  that never repeats a value the id differs from the id of every later call. Every
  envelope of \<open>create_task_update\<close> has type \<open>task.update\<close> and is routed to \<open>broadcast\<close>;
  its status is \<open>processing\<close> when the argument is left out and the argument otherwise.
\<close>

theorem builder_envelopes:
  "e_status (fst (create_task p f t x w)) = ''sent''
   \<and> e_type (fst (create_task p f t x w)) = ''task.create''
   \<and> e_id (fst (create_task p f t x w)) = uuid_src w (uuid_calls w)
   \<and> uuid_src (snd (create_task p f t x w)) = uuid_src w
   \<and> uuid_calls (snd (create_task p f t x w)) = Suc (uuid_calls w)
   \<and> (inj (uuid_src w) \<longrightarrow>
        (\<forall>w' p' f' t' x'. uuid_src w' = uuid_src w \<and> uuid_calls w < uuid_calls w' \<longrightarrow>
           e_id (fst (create_task p' f' t' x' w')) \<noteq> e_id (fst (create_task p f t x w))))
   \<and> e_type (fst (create_task_update p f x st rt w)) = ''task.update''
   \<and> r_to (e_routing (fst (create_task_update p f x st rt w))) = ''broadcast''
   \<and> e_status (fst (create_task_update p f x None rt w)) = ''processing''
   \<and> e_status (fst (create_task_update p f x (Some s) rt w)) = s"
  by (auto simp: create_task_fst create_task_snd create_task_update_fst dest: injD)

theorem builder_envelopes_witness:
  "inj (uuid_src (sample_world (\<lambda>n. Served) (\<lambda>n. AdvisorRaises []) sample_loads))
   \<and> e_id (fst (create_task ''p'' ''cli-user'' ''coordinator'' ''second''
         (snd (create_task ''p'' ''cli-user'' ''coordinator'' ''first''
            (sample_world (\<lambda>n. Served) (\<lambda>n. AdvisorRaises []) sample_loads)))))
     \<noteq> e_id (fst (create_task ''p'' ''cli-user'' ''coordinator'' ''first''
         (sample_world (\<lambda>n. Served) (\<lambda>n. AdvisorRaises []) sample_loads)))"
proof -
  let ?w = "sample_world (\<lambda>n. Served) (\<lambda>n. AdvisorRaises []) sample_loads"
  let ?w1 = "snd (create_task ''p'' ''cli-user'' ''coordinator'' ''first'' ?w)"
  have fresh: "inj (uuid_src ?w)"
    by (rule inj_sample_uuid)
  have later: "uuid_src ?w1 = uuid_src ?w \<and> uuid_calls ?w < uuid_calls ?w1"
    by (simp add: create_task_snd)
  from builder_envelopes [of "''p''" "''cli-user''" "''coordinator''" "''first''" ?w] fresh
  have "\<forall>w' p' f' t' x'. uuid_src w' = uuid_src ?w \<and> uuid_calls ?w < uuid_calls w' \<longrightarrow>
           e_id (fst (create_task p' f' t' x' w'))
             \<noteq> e_id (fst (create_task ''p'' ''cli-user'' ''coordinator'' ''first'' ?w))"
    by blast
  with later fresh show ?thesis
    by blast
qed




text \<open>
  C4. An envelope built by \<open>create_task\<close> for the sender \<open>coordinator\<close> and sent through
  the adapter is stored with its content unchanged and with \<open>to_agent = worker\<close>, but
  with the sender name \<open> coordinator\<close>: the builder writes the prefix \<open>agent: \<close> with a
  blank, and the adapter strips \<open>agent:\<close> only.
\<close>

theorem create_task_send_envelope_sender:
  "fst (send_envelope
          (fst (create_task ''test_project'' ''coordinator'' ''worker'' ''Test task''
                 (sample_world (\<lambda>n. Served) (\<lambda>n. AdvisorRaises []) sample_loads)))
          ''human-1''
          (snd (create_task ''test_project'' ''coordinator'' ''worker'' ''Test task''
                 (sample_world (\<lambda>n. Served) (\<lambda>n. AdvisorRaises []) sample_loads))))
   = Inr (Some
       \<lparr> m_id = ''uuid-'', m_project_id = ''test_project'', m_human_id = ''human-1'',
         m_agent_name = '' coordinator'', m_to_agent = ''worker'',
         m_intent = ''Test task'', m_status = ''sent'',
         m_content = fst (create_task ''test_project'' ''coordinator'' ''worker'' ''Test task''
                 (sample_world (\<lambda>n. Served) (\<lambda>n. AdvisorRaises []) sample_loads)),
         m_reply_to = None, m_telemetry = None \<rparr>)
   \<and> '' coordinator'' \<noteq> ''coordinator''"
  by (simp add: send_envelope_def create_task_fst create_task_snd insert_row_def
      sample_world_def Let_def)

section \<open>Properties of the coordinator\<close>

text \<open>
  C1, as the code has it. In a workflow run the delegation stage starts with a task and
  an analysis and without a \<open>delegation_sent\<close> entry; the coordinator is signed in.
  \<^item> If \<open>requires_worker\<close> is true and the insert answers with the row, exactly one row is
    added to the table, addressed to \<open>worker\<close>, with the intent \<open>WORK_REQUEST: \<close> followed
    by the task text and \<open>reply_to\<close> the task's id. The stage returns
    \<open>delegation_sent = True\<close> and adds no \<open>error\<close> entry, unless the read-back of the row
    raises: then the row stays and the stage returns \<open>delegation_sent = False\<close> with the
    text of the exception as the \<open>error\<close> entry.
  \<^item> If \<open>requires_worker\<close> is true and the insert reports no data, no row is added and
    the stage returns \<open>delegation_sent = False\<close> with the \<open>error\<close> entry \<open>Insert failed\<close>.
  \<^item> If \<open>requires_worker\<close> is true and the insert raises, no row is added and the stage
    returns \<open>delegation_sent = False\<close> with the text of the exception as the \<open>error\<close>
    entry.
  \<^item> If \<open>requires_worker\<close> is false, the stage touches nothing and returns
    \<open>delegation_sent = False\<close>.

  The \<open>error\<close> entry is written as \<open>{"error": v, **state}\<close>: an entry the state already
  has stays, and in a workflow run the state has none at this stage.
\<close>

theorem delegate_to_worker_routing:
  assumes "cf_task st = Some t" and "cf_analysis st = Some a"
    and "delegation_sent st = None" and "human_user c = Some h"
  shows
    "(truthy (requires_worker a) \<and> store_src w (store_calls w) = Served
        \<and> (\<forall>e. store_src w (Suc (store_calls w)) \<noteq> StoreRaises e) \<longrightarrow>
        (\<exists>row st' c' w'. delegate_to_worker_node c st w = (Inr st', c', w')
           \<and> messages w' = messages w @ [row]
           \<and> m_to_agent row = ''worker''
           \<and> m_intent row = ''WORK_REQUEST: '' @ t_text t
           \<and> m_reply_to row = Some (t_id t)
           \<and> delegation_sent st' = Some True
           \<and> cf_error st' = cf_error st))
     \<and> (\<forall>e. truthy (requires_worker a) \<and> store_src w (store_calls w) = Served
        \<and> store_src w (Suc (store_calls w)) = StoreRaises e \<longrightarrow>
        (\<exists>row st' c' w'. delegate_to_worker_node c st w = (Inr st', c', w')
           \<and> messages w' = messages w @ [row]
           \<and> m_to_agent row = ''worker''
           \<and> m_intent row = ''WORK_REQUEST: '' @ t_text t
           \<and> m_reply_to row = Some (t_id t)
           \<and> delegation_sent st' = Some False
           \<and> cf_error st' = spread e (cf_error st)))
     \<and> (truthy (requires_worker a) \<and> store_src w (store_calls w) = NoData \<longrightarrow>
        (\<exists>st' c' w'. delegate_to_worker_node c st w = (Inr st', c', w')
           \<and> messages w' = messages w
           \<and> delegation_sent st' = Some False
           \<and> cf_error st' = spread ''Insert failed'' (cf_error st)))
     \<and> (\<forall>e. truthy (requires_worker a) \<and> store_src w (store_calls w) = StoreRaises e \<longrightarrow>
        (\<exists>st' c' w'. delegate_to_worker_node c st w = (Inr st', c', w')
           \<and> messages w' = messages w
           \<and> delegation_sent st' = Some False
           \<and> cf_error st' = spread e (cf_error st)))
     \<and> (\<not> truthy (requires_worker a) \<longrightarrow>
        delegate_to_worker_node c st w = (Inr (st\<lparr>delegation_sent := Some False\<rparr>), c, w))"
proof (intro conjI impI allI)
  assume "truthy (requires_worker a) \<and> store_src w (store_calls w) = Served
        \<and> (\<forall>e. store_src w (Suc (store_calls w)) \<noteq> StoreRaises e)"
  with assms show "\<exists>row st' c' w'. delegate_to_worker_node c st w = (Inr st', c', w')
           \<and> messages w' = messages w @ [row]
           \<and> m_to_agent row = ''worker''
           \<and> m_intent row = ''WORK_REQUEST: '' @ t_text t
           \<and> m_reply_to row = Some (t_id t)
           \<and> delegation_sent st' = Some True
           \<and> cf_error st' = cf_error st"
    by (cases "store_src w (Suc (store_calls w))")
      (simp_all add: delegate_to_worker_node_def uuid4_def store_defs spread_def Let_def)
next
  fix e
  assume "truthy (requires_worker a) \<and> store_src w (store_calls w) = Served
        \<and> store_src w (Suc (store_calls w)) = StoreRaises e"
  with assms show "\<exists>row st' c' w'. delegate_to_worker_node c st w = (Inr st', c', w')
           \<and> messages w' = messages w @ [row]
           \<and> m_to_agent row = ''worker''
           \<and> m_intent row = ''WORK_REQUEST: '' @ t_text t
           \<and> m_reply_to row = Some (t_id t)
           \<and> delegation_sent st' = Some False
           \<and> cf_error st' = spread e (cf_error st)"
    by (simp add: delegate_to_worker_node_def uuid4_def store_defs spread_def Let_def)
next
  assume "truthy (requires_worker a) \<and> store_src w (store_calls w) = NoData"
  with assms show "\<exists>st' c' w'. delegate_to_worker_node c st w = (Inr st', c', w')
           \<and> messages w' = messages w
           \<and> delegation_sent st' = Some False
           \<and> cf_error st' = spread ''Insert failed'' (cf_error st)"
    by (simp add: delegate_to_worker_node_def uuid4_def store_defs spread_def Let_def)
next
  fix e
  assume "truthy (requires_worker a) \<and> store_src w (store_calls w) = StoreRaises e"
  with assms show "\<exists>st' c' w'. delegate_to_worker_node c st w = (Inr st', c', w')
           \<and> messages w' = messages w
           \<and> delegation_sent st' = Some False
           \<and> cf_error st' = spread e (cf_error st)"
    by (simp add: delegate_to_worker_node_def uuid4_def store_defs spread_def Let_def)
next
  assume "\<not> truthy (requires_worker a)"
  with assms
  show "delegate_to_worker_node c st w = (Inr (st\<lparr>delegation_sent := Some False\<rparr>), c, w)"
    by (simp add: delegate_to_worker_node_def spread_def)
qed

theorem delegate_to_worker_routing_witness:
  "truthy (requires_worker (handler_analysis\<lparr>requires_worker := JBool True\<rparr>))
   \<and> (\<exists>row st' c' w'.
        delegate_to_worker_node sample_coordinator
          (sample_task\<lparr>cf_analysis := Some (handler_analysis\<lparr>requires_worker := JBool True\<rparr>)\<rparr>)
          (sample_world (\<lambda>n. Served) sample_reply sample_loads) = (Inr st', c', w')
        \<and> messages w' = [row]
        \<and> m_to_agent row = ''worker''
        \<and> m_intent row = ''WORK_REQUEST: Refactor the login module''
        \<and> m_reply_to row = Some ''m1''
        \<and> delegation_sent st' = Some True
        \<and> cf_error st' = None)
   \<and> (\<exists>st' c' w'.
        delegate_to_worker_node sample_coordinator
          (sample_task\<lparr>cf_analysis := Some (handler_analysis\<lparr>requires_worker := JBool True\<rparr>)\<rparr>)
          (sample_world (\<lambda>n. NoData) sample_reply sample_loads) = (Inr st', c', w')
        \<and> messages w' = []
        \<and> delegation_sent st' = Some False
        \<and> cf_error st' = Some ''Insert failed'')
   \<and> (\<exists>st' c' w'.
        delegate_to_worker_node sample_coordinator
          (sample_task\<lparr>cf_analysis := Some (handler_analysis\<lparr>requires_worker := JBool True\<rparr>)\<rparr>)
          (sample_world (\<lambda>n. StoreRaises ''timeout'') sample_reply sample_loads)
          = (Inr st', c', w')
        \<and> messages w' = []
        \<and> delegation_sent st' = Some False
        \<and> cf_error st' = Some ''timeout'')
   \<and> (\<exists>row st' c' w'.
        delegate_to_worker_node sample_coordinator
          (sample_task\<lparr>cf_analysis := Some (handler_analysis\<lparr>requires_worker := JBool True\<rparr>)\<rparr>)
          (sample_world (\<lambda>n. if n = 0 then Served else StoreRaises ''timeout'')
             sample_reply sample_loads)
          = (Inr st', c', w')
        \<and> messages w' = [row]
        \<and> m_to_agent row = ''worker''
        \<and> m_intent row = ''WORK_REQUEST: Refactor the login module''
        \<and> m_reply_to row = Some ''m1''
        \<and> delegation_sent st' = Some False
        \<and> cf_error st' = Some ''timeout'')
   \<and> \<not> truthy (requires_worker handler_analysis)
   \<and> delegate_to_worker_node sample_coordinator
       (sample_task\<lparr>cf_analysis := Some handler_analysis\<rparr>)
       (sample_world (\<lambda>n. Served) sample_reply sample_loads)
     = (Inr (sample_task\<lparr>cf_analysis := Some handler_analysis, delegation_sent := Some False\<rparr>),
        sample_coordinator, sample_world (\<lambda>n. Served) sample_reply sample_loads)"
proof -
  let ?w = "sample_world (\<lambda>n. Served) sample_reply sample_loads"
  let ?n = "sample_world (\<lambda>n. NoData) sample_reply sample_loads"
  let ?x = "sample_world (\<lambda>n. StoreRaises ''timeout'') sample_reply sample_loads"
  let ?v = "sample_world (\<lambda>n. if n = 0 then Served else StoreRaises ''timeout'')
              sample_reply sample_loads"
  let ?t = "\<lparr> t_id = ''m1'', t_text = ''Refactor the login module'',
              t_project_id = ''test_project'' \<rparr>"
  let ?yes = "handler_analysis\<lparr>requires_worker := JBool True\<rparr>"
  have h: "human_user sample_coordinator = Some ''human-1''"
    by (simp add: sample_coordinator_def)
  have no: "\<not> truthy (requires_worker handler_analysis)"
    by (simp add: handler_analysis_def)
  have yes: "truthy (requires_worker ?yes)"
    by simp
  have served: "store_src ?w (store_calls ?w) = Served
      \<and> (\<forall>e. store_src ?w (Suc (store_calls ?w)) \<noteq> StoreRaises e)"
    by (simp add: sample_world_def)
  have no_data: "store_src ?n (store_calls ?n) = NoData"
    by (simp add: sample_world_def)
  have raises: "store_src ?x (store_calls ?x) = StoreRaises ''timeout''"
    by (simp add: sample_world_def)
  have verify: "store_src ?v (store_calls ?v) = Served
      \<and> store_src ?v (Suc (store_calls ?v)) = StoreRaises ''timeout''"
    by (simp add: sample_world_def)
  have empty: "messages ?w = []" "messages ?n = []" "messages ?x = []" "messages ?v = []"
    by (simp_all add: sample_world_def)
  have a: "delegate_to_worker_node sample_coordinator
       (sample_task\<lparr>cf_analysis := Some handler_analysis\<rparr>) ?w
     = (Inr (sample_task\<lparr>cf_analysis := Some handler_analysis, delegation_sent := Some False\<rparr>),
        sample_coordinator, ?w)"
    using delegate_to_worker_routing [of "sample_task\<lparr>cf_analysis := Some handler_analysis\<rparr>" ?t
        handler_analysis sample_coordinator "''human-1''" ?w] h no
    by (simp add: sample_task_def no_keys_def)
  have b: "\<exists>row st' c' w'.
        delegate_to_worker_node sample_coordinator (sample_task\<lparr>cf_analysis := Some ?yes\<rparr>) ?w
          = (Inr st', c', w')
        \<and> messages w' = [row]
        \<and> m_to_agent row = ''worker''
        \<and> m_intent row = ''WORK_REQUEST: Refactor the login module''
        \<and> m_reply_to row = Some ''m1''
        \<and> delegation_sent st' = Some True
        \<and> cf_error st' = None"
    using delegate_to_worker_routing [of "sample_task\<lparr>cf_analysis := Some ?yes\<rparr>" ?t
        ?yes sample_coordinator "''human-1''" ?w] h yes served empty
    by (simp add: sample_task_def no_keys_def)
  have c: "\<exists>st' c' w'.
        delegate_to_worker_node sample_coordinator (sample_task\<lparr>cf_analysis := Some ?yes\<rparr>) ?n
          = (Inr st', c', w')
        \<and> messages w' = []
        \<and> delegation_sent st' = Some False
        \<and> cf_error st' = Some ''Insert failed''"
    using delegate_to_worker_routing [of "sample_task\<lparr>cf_analysis := Some ?yes\<rparr>" ?t
        ?yes sample_coordinator "''human-1''" ?n] h yes no_data empty
    by (simp add: sample_task_def no_keys_def spread_def)
  have d: "\<exists>st' c' w'.
        delegate_to_worker_node sample_coordinator (sample_task\<lparr>cf_analysis := Some ?yes\<rparr>) ?x
          = (Inr st', c', w')
        \<and> messages w' = []
        \<and> delegation_sent st' = Some False
        \<and> cf_error st' = Some ''timeout''"
    using delegate_to_worker_routing [of "sample_task\<lparr>cf_analysis := Some ?yes\<rparr>" ?t
        ?yes sample_coordinator "''human-1''" ?x] h yes raises empty
    by (simp add: sample_task_def no_keys_def spread_def)
  have e: "\<exists>row st' c' w'.
        delegate_to_worker_node sample_coordinator (sample_task\<lparr>cf_analysis := Some ?yes\<rparr>) ?v
          = (Inr st', c', w')
        \<and> messages w' = [row]
        \<and> m_to_agent row = ''worker''
        \<and> m_intent row = ''WORK_REQUEST: Refactor the login module''
        \<and> m_reply_to row = Some ''m1''
        \<and> delegation_sent st' = Some False
        \<and> cf_error st' = Some ''timeout''"
    using delegate_to_worker_routing [of "sample_task\<lparr>cf_analysis := Some ?yes\<rparr>" ?t
        ?yes sample_coordinator "''human-1''" ?v] h yes verify empty
    by (simp add: sample_task_def no_keys_def spread_def)
  from yes no a b c d e show ?thesis
    by blast
qed

text \<open>
  The claim as stated fails when the store does not take the row: the reply asks for a
  worker, the insert of the work request reports no data, and the run ends with no row
  addressed to \<open>worker\<close>, with \<open>delegation_sent = False\<close> and the \<open>error\<close> entry
  \<open>Insert failed\<close>.
\<close>

theorem delegation_store_failure:
  "(case workflow sample_coordinator
      (no_keys\<lparr>incoming_message :=
         Some (sample_message ''m1'' ''coordinator'' ''Refactor the login module'')\<rparr>)
      (sample_world (\<lambda>n. if n = 0 then NoData else Served) sample_reply sample_loads) of
     (Inl e, c, w) \<Rightarrow> False
   | (Inr st, c, w) \<Rightarrow>
       map_option requires_worker (cf_analysis st) = Some (JBool True)
       \<and> filter (\<lambda>row. m_to_agent row = ''worker'') (messages w) = []
       \<and> delegation_sent st = Some False
       \<and> cf_error st = Some ''Insert failed''
       \<and> completion_sent st = Some True)"
  by (simp add: node_defs env_defs sample_defs no_keys_def spread_def dict_get_def store_defs
      Let_def unfence_def strip_def isspace_def)

section \<open>Properties of the worker\<close>

lemmas lower_eval = lower_def lower_char_def char_of_def bit_Suc_0_iff

text \<open>
  C7. \<open>analyze_request\<close> lowers the request text and tries the keyword lists in order:
  the template is \<open>security_analysis\<close> exactly when a security keyword occurs,
  \<open>code_analysis\<close> exactly when none does and a code keyword occurs, \<open>test_strategy\<close>
  exactly when neither does and a test keyword occurs, and \<open>general_task\<close> exactly when
  no keyword occurs. The complexity tag is \<open>high\<close> exactly when the text has more than 50
  characters and \<open>medium\<close> otherwise. The four request texts of the specification get
  \<open>security_analysis\<close>, \<open>code_analysis\<close>, \<open>test_strategy\<close> and \<open>general_task\<close>.
\<close>

theorem analyze_request_classification:
  "(\<exists>a w'. analyze_request_node k (st\<lparr>wf_request := Some rq, wf_analysis := None\<rparr>) w
        = (Inr (st\<lparr>wf_request := Some rq, wf_analysis := Some a\<rparr>), k, w')
      \<and> (prompt_template a = ''security_analysis'' \<longleftrightarrow>
           any_keyword [''security'', ''vulnerability'', ''exploit''] (lower (rq_text rq)))
      \<and> (prompt_template a = ''code_analysis'' \<longleftrightarrow>
           \<not> any_keyword [''security'', ''vulnerability'', ''exploit''] (lower (rq_text rq))
           \<and> any_keyword [''code'', ''review'', ''bug'', ''error''] (lower (rq_text rq)))
      \<and> (prompt_template a = ''test_strategy'' \<longleftrightarrow>
           \<not> any_keyword [''security'', ''vulnerability'', ''exploit''] (lower (rq_text rq))
           \<and> \<not> any_keyword [''code'', ''review'', ''bug'', ''error''] (lower (rq_text rq))
           \<and> any_keyword [''test'', ''testing'', ''qa''] (lower (rq_text rq)))
      \<and> (prompt_template a = ''general_task'' \<longleftrightarrow>
           \<not> any_keyword [''security'', ''vulnerability'', ''exploit''] (lower (rq_text rq))
           \<and> \<not> any_keyword [''code'', ''review'', ''bug'', ''error''] (lower (rq_text rq))
           \<and> \<not> any_keyword [''test'', ''testing'', ''qa''] (lower (rq_text rq)))
      \<and> (request_complexity a = ''high'' \<longleftrightarrow> 50 < length (rq_text rq))
      \<and> (request_complexity a = ''medium'' \<longleftrightarrow> length (rq_text rq) \<le> 50))
   \<and> fst (analyze_request_node k
        (st\<lparr>wf_request := Some (rq\<lparr>rq_text := ''Check for SQL injection vulnerability''\<rparr>),
            wf_analysis := None\<rparr>) w)
     = Inr (st\<lparr>wf_request := Some (rq\<lparr>rq_text := ''Check for SQL injection vulnerability''\<rparr>),
               wf_analysis := Some \<lparr> analysis_type = ''security_review'',
                 prompt_template = ''security_analysis'', request_complexity = ''medium'',
                 estimated_time = time_src w (time_calls w) \<rparr>\<rparr>)
   \<and> fst (analyze_request_node k
        (st\<lparr>wf_request := Some (rq\<lparr>rq_text := ''There'' @ [CHR 0x27] @ ''s a bug in this function''\<rparr>),
            wf_analysis := None\<rparr>) w)
     = Inr (st\<lparr>wf_request := Some (rq\<lparr>rq_text := ''There'' @ [CHR 0x27] @ ''s a bug in this function''\<rparr>),
               wf_analysis := Some \<lparr> analysis_type = ''code_review'',
                 prompt_template = ''code_analysis'', request_complexity = ''medium'',
                 estimated_time = time_src w (time_calls w) \<rparr>\<rparr>)
   \<and> fst (analyze_request_node k
        (st\<lparr>wf_request := Some (rq\<lparr>rq_text := ''Need a QA test plan''\<rparr>),
            wf_analysis := None\<rparr>) w)
     = Inr (st\<lparr>wf_request := Some (rq\<lparr>rq_text := ''Need a QA test plan''\<rparr>),
               wf_analysis := Some \<lparr> analysis_type = ''test_analysis'',
                 prompt_template = ''test_strategy'', request_complexity = ''medium'',
                 estimated_time = time_src w (time_calls w) \<rparr>\<rparr>)
   \<and> fst (analyze_request_node k
        (st\<lparr>wf_request := Some (rq\<lparr>rq_text := ''Explain microservices''\<rparr>),
            wf_analysis := None\<rparr>) w)
     = Inr (st\<lparr>wf_request := Some (rq\<lparr>rq_text := ''Explain microservices''\<rparr>),
               wf_analysis := Some \<lparr> analysis_type = ''general_analysis'',
                 prompt_template = ''general_task'', request_complexity = ''medium'',
                 estimated_time = time_src w (time_calls w) \<rparr>\<rparr>)"
proof (intro conjI)
  show "\<exists>a w'. analyze_request_node k (st\<lparr>wf_request := Some rq, wf_analysis := None\<rparr>) w
        = (Inr (st\<lparr>wf_request := Some rq, wf_analysis := Some a\<rparr>), k, w')
      \<and> (prompt_template a = ''security_analysis'' \<longleftrightarrow>
           any_keyword [''security'', ''vulnerability'', ''exploit''] (lower (rq_text rq)))
      \<and> (prompt_template a = ''code_analysis'' \<longleftrightarrow>
           \<not> any_keyword [''security'', ''vulnerability'', ''exploit''] (lower (rq_text rq))
           \<and> any_keyword [''code'', ''review'', ''bug'', ''error''] (lower (rq_text rq)))
      \<and> (prompt_template a = ''test_strategy'' \<longleftrightarrow>
           \<not> any_keyword [''security'', ''vulnerability'', ''exploit''] (lower (rq_text rq))
           \<and> \<not> any_keyword [''code'', ''review'', ''bug'', ''error''] (lower (rq_text rq))
           \<and> any_keyword [''test'', ''testing'', ''qa''] (lower (rq_text rq)))
      \<and> (prompt_template a = ''general_task'' \<longleftrightarrow>
           \<not> any_keyword [''security'', ''vulnerability'', ''exploit''] (lower (rq_text rq))
           \<and> \<not> any_keyword [''code'', ''review'', ''bug'', ''error''] (lower (rq_text rq))
           \<and> \<not> any_keyword [''test'', ''testing'', ''qa''] (lower (rq_text rq)))
      \<and> (request_complexity a = ''high'' \<longleftrightarrow> 50 < length (rq_text rq))
      \<and> (request_complexity a = ''medium'' \<longleftrightarrow> length (rq_text rq) \<le> 50)"
  proof -
    let ?t = "lower (rq_text rq)"
    let ?a = "\<lparr> analysis_type =
                  (if any_keyword [''security'', ''vulnerability'', ''exploit''] ?t
                   then ''security_review''
                   else if any_keyword [''code'', ''review'', ''bug'', ''error''] ?t
                   then ''code_review''
                   else if any_keyword [''test'', ''testing'', ''qa''] ?t
                   then ''test_analysis'' else ''general_analysis''),
                prompt_template =
                  (if any_keyword [''security'', ''vulnerability'', ''exploit''] ?t
                   then ''security_analysis''
                   else if any_keyword [''code'', ''review'', ''bug'', ''error''] ?t
                   then ''code_analysis''
                   else if any_keyword [''test'', ''testing'', ''qa''] ?t
                   then ''test_strategy'' else ''general_task''),
                request_complexity = (if 50 < length (rq_text rq) then ''high'' else ''medium''),
                estimated_time = time_src w (time_calls w) \<rparr>"
    have run: "analyze_request_node k (st\<lparr>wf_request := Some rq, wf_analysis := None\<rparr>) w
        = (Inr (st\<lparr>wf_request := Some rq, wf_analysis := Some ?a\<rparr>), k,
           w\<lparr>time_calls := Suc (time_calls w)\<rparr>)"
      by (simp add: analyze_request_node_def time_time_def spread_def Let_def)
    show ?thesis
      by (rule exI [of _ ?a], rule exI [of _ "w\<lparr>time_calls := Suc (time_calls w)\<rparr>"])
        (simp add: run)
  qed
qed (simp_all add: analyze_request_node_def time_time_def spread_def Let_def any_keyword_def
      lower_eval)

section \<open>Dispatch through one instance\<close>

text \<open>
  C3, as the code has it. A message whose id is in the processed set is skipped and
  nothing changes. Otherwise the id is put into the set first and the workflow, if it
  runs at all, runs on the coordinator (or worker) that already holds the id; whatever
  the workflow does, the id is in the set afterwards. Over any sequence of dispatches
  through one instance the workflow therefore runs at most once for an id. The worker
  runs it exactly once for an id that was not processed before. The coordinator runs it
  exactly once if the first message with that id is not stopped by the routing guard
  (its intent starts with none of \<open>WORK_COMPLETE:\<close>, \<open>WORK_REQUEST:\<close>,
  \<open>TASK_COMPLETE:\<close>) and never otherwise. In particular, dispatching the same
  message twice runs the workflow once, or not at all when the guard stops it.
\<close>

theorem single_instance_dispatch:
  "(m_id m \<in> processed_messages (state c) \<longrightarrow> process_incoming_message c m w = (Skipped, c, w))
   \<and> (m_id m \<notin> processed_messages (state c) \<and> \<not> guarded (m_intent m) \<longrightarrow>
        process_incoming_message c m w
          = (case workflow
                 (c\<lparr>state := (state c)\<lparr>processed_messages :=
                       insert (m_id m) (processed_messages (state c))\<rparr>\<rparr>)
                 (no_keys\<lparr>incoming_message := Some m\<rparr>) w of
               (result, rest) \<Rightarrow> (Ran result, rest)))
   \<and> processed_messages (state (fst (snd (process_incoming_message c m w))))
        = insert (m_id m) (processed_messages (state c))
   \<and> runs_of i (fst (dispatch_all c ms w))
        = (case find (\<lambda>m. m_id m = i) ms of
             None \<Rightarrow> 0
           | Some first \<Rightarrow>
               if i \<in> processed_messages (state c) \<or> guarded (m_intent first) then 0 else 1)
   \<and> runs_of i (fst (dispatch_all c ms w)) \<le> 1
   \<and> runs_of (m_id m) (fst (dispatch_all c [m, m] w))
        = (if m_id m \<in> processed_messages (state c) \<or> guarded (m_intent m) then 0 else 1)
   \<and> (m_id m \<in> wk_processed_messages (wk_state k) \<longrightarrow>
        process_work_request k m w = (Skipped, k, w))
   \<and> (m_id m \<notin> wk_processed_messages (wk_state k) \<longrightarrow>
        process_work_request k m w
          = (case worker_workflow
                 (k\<lparr>wk_state := (wk_state k)\<lparr>wk_processed_messages :=
                       insert (m_id m) (wk_processed_messages (wk_state k))\<rparr>\<rparr>)
                 (no_worker_keys\<lparr>work_request := Some m\<rparr>) w of
               (result, rest) \<Rightarrow> (Ran result, rest)))
   \<and> wk_processed_messages (wk_state (fst (snd (process_work_request k m w))))
        = insert (m_id m) (wk_processed_messages (wk_state k))
   \<and> runs_of i (fst (request_all k ms w))
        = (if i \<in> m_id ` set ms \<and> i \<notin> wk_processed_messages (wk_state k) then 1 else 0)
   \<and> runs_of (m_id m) (fst (request_all k [m, m] w))
        = (if m_id m \<in> wk_processed_messages (wk_state k) then 0 else 1)"
proof (intro conjI)
  show "runs_of i (fst (dispatch_all c ms w)) \<le> 1"
    by (simp add: dispatch_all_runs split: option.splits)
  show "runs_of (m_id m) (fst (dispatch_all c [m, m] w))
        = (if m_id m \<in> processed_messages (state c) \<or> guarded (m_intent m) then 0 else 1)"
    by (simp add: dispatch_all_runs del: dispatch_all.simps)
  show "runs_of (m_id m) (fst (request_all k [m, m] w))
        = (if m_id m \<in> wk_processed_messages (wk_state k) then 0 else 1)"
    by (simp add: request_all_runs del: request_all.simps)
  show "processed_messages (state (fst (snd (process_incoming_message c m w))))
        = insert (m_id m) (processed_messages (state c))"
    by (rule process_incoming_processed)
  show "wk_processed_messages (wk_state (fst (snd (process_work_request k m w))))
        = insert (m_id m) (wk_processed_messages (wk_state k))"
    by (rule process_work_processed)
  show "runs_of i (fst (dispatch_all c ms w))
        = (case find (\<lambda>m. m_id m = i) ms of
             None \<Rightarrow> 0
           | Some first \<Rightarrow>
               if i \<in> processed_messages (state c) \<or> guarded (m_intent first) then 0 else 1)"
    by (rule dispatch_all_runs)
  show "runs_of i (fst (request_all k ms w))
        = (if i \<in> m_id ` set ms \<and> i \<notin> wk_processed_messages (wk_state k) then 1 else 0)"
    by (rule request_all_runs)
qed (simp_all add: process_incoming_message_def process_work_request_def guarded_def Let_def)

theorem single_instance_dispatch_witness:
  "m_id (sample_message ''m1'' ''coordinator'' ''Refactor the login module'')
     \<notin> processed_messages (state sample_coordinator)
   \<and> \<not> guarded (m_intent (sample_message ''m1'' ''coordinator'' ''Refactor the login module''))
   \<and> runs_of ''m1'' (fst (dispatch_all sample_coordinator
        [sample_message ''m1'' ''coordinator'' ''Refactor the login module'',
         sample_message ''m1'' ''coordinator'' ''Refactor the login module'']
        (sample_world (\<lambda>n. Served) sample_reply sample_loads))) = 1
   \<and> m_id (sample_message ''r1'' ''worker'' ''WORK_REQUEST: Refactor the login module'')
     \<notin> wk_processed_messages (wk_state sample_worker)
   \<and> runs_of ''r1'' (fst (request_all sample_worker
        [sample_message ''r1'' ''worker'' ''WORK_REQUEST: Refactor the login module'',
         sample_message ''r1'' ''worker'' ''WORK_REQUEST: Refactor the login module'']
        (sample_world (\<lambda>n. Served) sample_reply sample_loads))) = 1
   \<and> m_id (sample_message ''m1'' ''coordinator'' ''Refactor the login module'')
     \<in> processed_messages (state (sample_coordinator\<lparr>state :=
          (state sample_coordinator)\<lparr>processed_messages := {''m1''}\<rparr>\<rparr>))
   \<and> fst (process_incoming_message
        (sample_coordinator\<lparr>state := (state sample_coordinator)\<lparr>processed_messages := {''m1''}\<rparr>\<rparr>)
        (sample_message ''m1'' ''coordinator'' ''Refactor the login module'')
        (sample_world (\<lambda>n. Served) sample_reply sample_loads)) = Skipped"
proof -
  let ?m = "sample_message ''m1'' ''coordinator'' ''Refactor the login module''"
  let ?r = "sample_message ''r1'' ''worker'' ''WORK_REQUEST: Refactor the login module''"
  let ?w = "sample_world (\<lambda>n. Served) sample_reply sample_loads"
  let ?c1 = "sample_coordinator\<lparr>state := (state sample_coordinator)\<lparr>processed_messages := {''m1''}\<rparr>\<rparr>"
  have fresh: "m_id ?m \<notin> processed_messages (state sample_coordinator)"
    by (simp add: sample_coordinator_def)
  have task: "\<not> guarded (m_intent ?m)"
    by (simp add: guarded_def sample_message_def)
  have wfresh: "m_id ?r \<notin> wk_processed_messages (wk_state sample_worker)"
    by (simp add: sample_worker_def)
  have seen: "m_id ?m \<in> processed_messages (state ?c1)"
    by (simp add: sample_message_def)
  have idm: "m_id ?m = ''m1''" and idr: "m_id ?r = ''r1''"
    by (simp_all add: sample_message_def)
  have "runs_of (m_id ?m) (fst (dispatch_all sample_coordinator [?m, ?m] ?w))
      = (if m_id ?m \<in> processed_messages (state sample_coordinator) \<or> guarded (m_intent ?m)
         then 0 else 1)"
    using single_instance_dispatch [of ?m sample_coordinator ?w "''m1''" "[]" sample_worker]
    by (elim conjE)
  with fresh task idm
  have a: "runs_of ''m1'' (fst (dispatch_all sample_coordinator [?m, ?m] ?w)) = 1"
    by (simp del: dispatch_all.simps)
  have "runs_of (m_id ?r) (fst (request_all sample_worker [?r, ?r] ?w))
      = (if m_id ?r \<in> wk_processed_messages (wk_state sample_worker) then 0 else 1)"
    using single_instance_dispatch [of ?r sample_coordinator ?w "''r1''" "[]" sample_worker]
    by (elim conjE)
  with wfresh idr
  have b: "runs_of ''r1'' (fst (request_all sample_worker [?r, ?r] ?w)) = 1"
    by (simp del: request_all.simps)
  have "m_id ?m \<in> processed_messages (state ?c1) \<longrightarrow>
      process_incoming_message ?c1 ?m ?w = (Skipped, ?c1, ?w)"
    using single_instance_dispatch [of ?m ?c1 ?w "''m1''" "[]" sample_worker]
    by (elim conjE)
  with seen have c: "fst (process_incoming_message ?c1 ?m ?w) = Skipped"
    by simp
  from fresh task a wfresh b seen c show ?thesis
    by blast
qed

text \<open>
  The claim as stated fails at the routing guard: a worker completion dispatched twice
  through one coordinator runs the workflow zero times, not once.
\<close>

theorem guarded_message_never_runs:
  "runs_of ''m1'' (fst (dispatch_all sample_coordinator
      [sample_message ''m1'' ''coordinator'' ''WORK_COMPLETE: done'',
       sample_message ''m1'' ''coordinator'' ''WORK_COMPLETE: done'']
      (sample_world (\<lambda>n. Served) sample_reply sample_loads))) = 0"
  by (simp add: runs_of_def process_incoming_message_def sample_coordinator_def
      sample_message_def Let_def)

section \<open>The reply chain\<close>

lemmas run_defs = node_defs env_defs store_defs no_keys_def spread_def dict_get_def Let_def
  unfence_def strip_def isspace_def

lemmas worker_run_defs = worker_node_defs env_defs store_defs no_worker_keys_def spread_def
  Let_def any_keyword_def lower_eval int_of_float_def fallback_response_def

lemma replies_only_iff:
  "replies_only i w w'
     \<longleftrightarrow> (\<exists>new. messages w' = messages w @ new \<and> list_all (\<lambda>row. m_reply_to row = Some i) new)"
proof
  assume "replies_only i w w'"
  then have "messages w' = messages w @ drop (length (messages w)) (messages w')"
    and "list_all (\<lambda>row. m_reply_to row = Some i) (drop (length (messages w)) (messages w'))"
    by (simp_all add: replies_only_def) (metis append_take_drop_id)
  then show "\<exists>new. messages w' = messages w @ new \<and> list_all (\<lambda>row. m_reply_to row = Some i) new"
    by blast
next
  assume "\<exists>new. messages w' = messages w @ new \<and> list_all (\<lambda>row. m_reply_to row = Some i) new"
  then show "replies_only i w w'"
    by (auto simp: replies_only_def)
qed

lemma replies_only_same: "messages w' = messages w \<Longrightarrow> replies_only i w w'"
  by (simp add: replies_only_def)

lemma replies_only_trans:
  "replies_only i w w1 \<Longrightarrow> replies_only i w1 w2 \<Longrightarrow> replies_only i w w2"
  by (auto simp: replies_only_iff)

lemma and_then_rows:
  assumes "replies_only i w0 (snd (snd r)) \<and> (\<forall>st. fst r = Inr st \<longrightarrow> Q st)"
    and "\<And>c st w. Q st \<Longrightarrow>
           replies_only i w (snd (snd (N c st w))) \<and> (\<forall>st'. fst (N c st w) = Inr st' \<longrightarrow> Q st')"
  shows "replies_only i w0 (snd (snd (and_then r N)))
       \<and> (\<forall>st. fst (and_then r N) = Inr st \<longrightarrow> Q st)"
proof -
  obtain x c w where r: "r = (x, c, w)"
    by (cases r) auto
  show ?thesis
  proof (cases x)
    case (Inl e)
    with r assms(1) show ?thesis by (simp add: and_then_def)
  next
    case (Inr st)
    with r assms(1) have "Q st" by simp
    from assms(2) [OF this, where c = c and w = w] r Inr assms(1) show ?thesis
      by (auto simp: and_then_def intro: replies_only_trans)
  qed
qed

lemma receive_task_rows:
  "replies_only (m_id m) w (snd (snd (receive_task_node c (no_keys\<lparr>incoming_message := Some m\<rparr>) w)))
   \<and> (\<forall>st. fst (receive_task_node c (no_keys\<lparr>incoming_message := Some m\<rparr>) w) = Inr st
         \<longrightarrow> map_option t_id (cf_task st) = Some (m_id m))"
  by (auto simp: receive_task_node_def no_keys_def Let_def replies_only_same)

lemma analyze_task_rows:
  "map_option t_id (cf_task st) = Some i \<Longrightarrow>
   replies_only i w (snd (snd (analyze_task_node c st w)))
   \<and> (\<forall>st'. fst (analyze_task_node c st w) = Inr st' \<longrightarrow> map_option t_id (cf_task st') = Some i)"
  by (auto simp: analyze_task_node_def call_advisor_def Let_def replies_only_same
      split: option.splits prod.splits advisor_outcome.splits list.splits json.splits decoding.splits)

lemma delegate_rows:
  "map_option t_id (cf_task st) = Some i \<Longrightarrow>
   replies_only i w (snd (snd (delegate_to_worker_node c st w)))
   \<and> (\<forall>st'. fst (delegate_to_worker_node c st w) = Inr st' \<longrightarrow>
          map_option t_id (cf_task st') = Some i)"
  by (auto simp: delegate_to_worker_node_def uuid4_def store_defs Let_def replies_only_def
      split: option.splits prod.splits sum.splits list.splits store_fate.splits)

lemma wait_rows:
  "map_option t_id (cf_task st) = Some i \<Longrightarrow>
   replies_only i w (snd (snd (wait_for_response_node c st w)))
   \<and> (\<forall>st'. fst (wait_for_response_node c st w) = Inr st' \<longrightarrow>
          map_option t_id (cf_task st') = Some i)"
  by (auto simp: wait_for_response_node_def Let_def replies_only_same)

lemma consolidate_rows:
  "map_option t_id (cf_task st) = Some i \<Longrightarrow>
   replies_only i w (snd (snd (consolidate_results_node c st w)))
   \<and> (\<forall>st'. fst (consolidate_results_node c st w) = Inr st' \<longrightarrow>
          map_option t_id (cf_task st') = Some i)"
  by (auto simp: consolidate_results_node_def now_isoformat_def Let_def replies_only_same
      split: option.splits prod.splits)

lemma complete_rows:
  "map_option t_id (cf_task st) = Some i \<Longrightarrow>
   replies_only i w (snd (snd (complete_task_node c st w)))
   \<and> (\<forall>st'. fst (complete_task_node c st w) = Inr st' \<longrightarrow>
          map_option t_id (cf_task st') = Some i)"
  by (auto simp: complete_task_node_def uuid4_def store_defs Let_def replies_only_def
      split: option.splits prod.splits sum.splits list.splits store_fate.splits)

lemma workflow_rows:
  "replies_only (m_id m) w (snd (snd (workflow c (no_keys\<lparr>incoming_message := Some m\<rparr>) w)))"
proof -
  let ?Q = "\<lambda>st. map_option t_id (cf_task st) = Some (m_id m)"
  let ?r1 = "receive_task_node c (no_keys\<lparr>incoming_message := Some m\<rparr>) w"
  note r1 = receive_task_rows [of m w c]
  note r2 = and_then_rows [where Q = ?Q and N = analyze_task_node, OF r1 analyze_task_rows]
  note r3 = and_then_rows [where Q = ?Q and N = delegate_to_worker_node, OF r2 delegate_rows]
  note r4 = and_then_rows [where Q = ?Q and N = wait_for_response_node, OF r3 wait_rows]
  note r5 = and_then_rows [where Q = ?Q and N = consolidate_results_node, OF r4 consolidate_rows]
  note r6 = and_then_rows [where Q = ?Q and N = complete_task_node, OF r5 complete_rows]
  from r6 show ?thesis
    by (simp add: workflow_def)
qed


lemma receive_request_rows:
  "replies_only (m_id m) w
     (snd (snd (receive_request_node k (no_worker_keys\<lparr>work_request := Some m\<rparr>) w)))
   \<and> (\<forall>st. fst (receive_request_node k (no_worker_keys\<lparr>work_request := Some m\<rparr>) w) = Inr st
         \<longrightarrow> map_option rq_id (wf_request st) = Some (m_id m))"
  by (auto simp: receive_request_node_def no_worker_keys_def Let_def replies_only_same)

lemma analyze_request_rows:
  "map_option rq_id (wf_request st) = Some i \<Longrightarrow>
   replies_only i w (snd (snd (analyze_request_node k st w)))
   \<and> (\<forall>st'. fst (analyze_request_node k st w) = Inr st' \<longrightarrow>
          map_option rq_id (wf_request st') = Some i)"
  by (auto simp: analyze_request_node_def time_time_def Let_def replies_only_same
      split: option.splits prod.splits)

lemma call_ai_model_rows:
  "map_option rq_id (wf_request st) = Some i \<Longrightarrow>
   replies_only i w (snd (snd (call_ai_model_node k st w)))
   \<and> (\<forall>st'. fst (call_ai_model_node k st w) = Inr st' \<longrightarrow>
          map_option rq_id (wf_request st') = Some i)"
  by (auto simp: call_ai_model_node_def time_time_def call_advisor_def Let_def replies_only_same
      split: option.splits prod.splits advisor_outcome.splits list.splits)

lemma format_response_rows:
  "map_option rq_id (wf_request st) = Some i \<Longrightarrow>
   replies_only i w (snd (snd (format_response_node k st w)))
   \<and> (\<forall>st'. fst (format_response_node k st w) = Inr st' \<longrightarrow>
          map_option rq_id (wf_request st') = Some i)"
  by (auto simp: format_response_node_def now_isoformat_def Let_def replies_only_same
      split: option.splits prod.splits)

lemma send_result_rows:
  "map_option rq_id (wf_request st) = Some i \<Longrightarrow>
   replies_only i w (snd (snd (send_result_node k st w)))
   \<and> (\<forall>st'. fst (send_result_node k st w) = Inr st' \<longrightarrow>
          map_option rq_id (wf_request st') = Some i)"
  by (auto simp: send_result_node_def uuid4_def store_defs Let_def replies_only_def
      split: option.splits prod.splits sum.splits list.splits store_fate.splits)

lemma worker_workflow_rows:
  "replies_only (m_id m) w
     (snd (snd (worker_workflow k (no_worker_keys\<lparr>work_request := Some m\<rparr>) w)))"
proof -
  let ?Q = "\<lambda>st. map_option rq_id (wf_request st) = Some (m_id m)"
  note r1 = receive_request_rows [of m w k]
  note r2 = and_then_rows [where Q = ?Q and N = analyze_request_node, OF r1 analyze_request_rows]
  note r3 = and_then_rows [where Q = ?Q and N = call_ai_model_node, OF r2 call_ai_model_rows]
  note r4 = and_then_rows [where Q = ?Q and N = format_response_node, OF r3 format_response_rows]
  note r5 = and_then_rows [where Q = ?Q and N = send_result_node, OF r4 send_result_rows]
  from r5 show ?thesis
    by (simp add: worker_workflow_def)
qed

text \<open>
  C8. Every row the coordinator's workflow stores while it handles a task message, the
  delegation row among them, has \<open>reply_to\<close> equal to that message's id; every row the
  worker's workflow stores while it handles a work-request row, the \<open>WORK_COMPLETE\<close> row,
  has \<open>reply_to\<close> equal to the id of that work-request row. The same holds for whatever
  a dispatch of the message stores.
\<close>

theorem two_hop_reply_chain:
  "replies_only (m_id task_message) w
     (snd (snd (workflow c (no_keys\<lparr>incoming_message := Some task_message\<rparr>) w)))
   \<and> replies_only (m_id task_message) w (snd (snd (process_incoming_message c task_message w)))
   \<and> replies_only (m_id work_request_row) w
     (snd (snd (worker_workflow k (no_worker_keys\<lparr>work_request := Some work_request_row\<rparr>) w)))
   \<and> replies_only (m_id work_request_row) w
     (snd (snd (process_work_request k work_request_row w)))"
  by (simp add: workflow_rows worker_workflow_rows process_incoming_message_def
      process_work_request_def Let_def ran_agent replies_only_same)

theorem two_hop_reply_chain_witness:
  "list_all (\<lambda>row. m_reply_to row = Some ''m1'')
     (messages (snd (snd (workflow sample_coordinator
        (no_keys\<lparr>incoming_message :=
           Some (sample_message ''m1'' ''coordinator'' ''Refactor the login module'')\<rparr>)
        (sample_world (\<lambda>n. Served) sample_reply sample_loads)))))
   \<and> map m_to_agent
     (messages (snd (snd (workflow sample_coordinator
        (no_keys\<lparr>incoming_message :=
           Some (sample_message ''m1'' ''coordinator'' ''Refactor the login module'')\<rparr>)
        (sample_world (\<lambda>n. Served) sample_reply sample_loads)))))
     = [''worker'', ''broadcast'']
   \<and> list_all (\<lambda>row. m_reply_to row = Some ''r1'')
     (messages (snd (snd (worker_workflow sample_worker
        (no_worker_keys\<lparr>work_request :=
           Some (sample_message ''r1'' ''worker'' ''WORK_REQUEST: Refactor the login module'')\<rparr>)
        (sample_world (\<lambda>n. Served) sample_reply sample_loads)))))
   \<and> map m_to_agent
     (messages (snd (snd (worker_workflow sample_worker
        (no_worker_keys\<lparr>work_request :=
           Some (sample_message ''r1'' ''worker'' ''WORK_REQUEST: Refactor the login module'')\<rparr>)
        (sample_world (\<lambda>n. Served) sample_reply sample_loads)))))
     = [''coordinator'']"
proof -
  let ?w = "sample_world (\<lambda>n. Served) sample_reply sample_loads"
  let ?m = "sample_message ''m1'' ''coordinator'' ''Refactor the login module''"
  let ?r = "sample_message ''r1'' ''worker'' ''WORK_REQUEST: Refactor the login module''"
  let ?w1 = "snd (snd (workflow sample_coordinator (no_keys\<lparr>incoming_message := Some ?m\<rparr>) ?w))"
  let ?w2 = "snd (snd (worker_workflow sample_worker (no_worker_keys\<lparr>work_request := Some ?r\<rparr>) ?w))"
  have empty: "messages ?w = []"
    by (simp add: sample_world_def)
  have ids: "m_id ?m = ''m1''" "m_id ?r = ''r1''"
    by (simp_all add: sample_message_def)
  have "replies_only (m_id ?m) ?w ?w1"
    using two_hop_reply_chain [of ?m ?w sample_coordinator ?r sample_worker]
    by (elim conjE)
  with empty ids have a: "list_all (\<lambda>row. m_reply_to row = Some ''m1'') (messages ?w1)"
    by (simp add: replies_only_def)
  have "replies_only (m_id ?r) ?w ?w2"
    using two_hop_reply_chain [of ?m ?w sample_coordinator ?r sample_worker]
    by (elim conjE)
  with empty ids have b: "list_all (\<lambda>row. m_reply_to row = Some ''r1'') (messages ?w2)"
    by (simp add: replies_only_def)
  have c: "map m_to_agent (messages ?w1) = [''worker'', ''broadcast'']"
    by (simp add: run_defs sample_defs)
  have d: "map m_to_agent (messages ?w2) = [''coordinator'']"
    by (simp add: worker_run_defs sample_defs)
  from a b c d show ?thesis
    by simp
qed

section \<open>The captured worker completion\<close>

lemma analyze_frame:
  "analyze_task_node c st w = (Inr st', c', w') \<Longrightarrow>
     delegation_sent st' = delegation_sent st \<and> cf_worker_response st' = cf_worker_response st"
  by (auto simp: analyze_task_node_def Let_def
      split: option.splits prod.splits advisor_outcome.splits list.splits json.splits decoding.splits)

lemma delegate_frame:
  "delegate_to_worker_node c st w = (Inr st', c', w') \<Longrightarrow>
     cf_worker_response st' = cf_worker_response st"
  by (auto simp: delegate_to_worker_node_def Let_def
      split: option.splits prod.splits sum.splits list.splits if_splits)

lemma wait_frame:
  "wait_for_response_node c st w = (Inr st', c', w') \<Longrightarrow>
     delegation_sent st' = delegation_sent st
     \<and> (cf_worker_response st = None \<and> delegation_sent st = Some True
          \<and> latest_worker_response (state c) = Some r
        \<longrightarrow> cf_worker_response st' = Some (Reply r))"
  by (auto simp: wait_for_response_node_def spread_def Let_def split: if_splits)

lemma consolidate_frame:
  "consolidate_results_node c st w = (Inr st', c', w') \<Longrightarrow>
     delegation_sent st' = delegation_sent st \<and> cf_worker_response st' = cf_worker_response st"
  by (auto simp: consolidate_results_node_def Let_def split: option.splits prod.splits)

lemma complete_frame:
  "complete_task_node c st w = (Inr st', c', w') \<Longrightarrow>
     delegation_sent st' = delegation_sent st \<and> cf_worker_response st' = cf_worker_response st"
  by (auto simp: complete_task_node_def Let_def
      split: option.splits prod.splits sum.splits list.splits)

lemma workflow_reuses_latest:
  assumes run: "workflow c (no_keys\<lparr>incoming_message := Some m\<rparr>) w = (Inr st', c', w')"
    and latest: "latest_worker_response (state c) = Some r"
    and sent: "delegation_sent st' = Some True"
  shows "cf_worker_response st' = Some (Reply r)"
proof -
  let ?r1 = "receive_task_node c (no_keys\<lparr>incoming_message := Some m\<rparr>) w"
  from run obtain s5 c5 w5 where
      p5: "and_then (and_then (and_then (and_then ?r1 analyze_task_node)
             delegate_to_worker_node) wait_for_response_node) consolidate_results_node
           = (Inr s5, c5, w5)"
      and n6: "complete_task_node c5 s5 w5 = (Inr st', c', w')"
    unfolding workflow_def by (blast dest: and_then_Inr)
  from p5 obtain s4 c4 w4 where
      p4: "and_then (and_then (and_then ?r1 analyze_task_node)
             delegate_to_worker_node) wait_for_response_node = (Inr s4, c4, w4)"
      and n5: "consolidate_results_node c4 s4 w4 = (Inr s5, c5, w5)"
    by (blast dest: and_then_Inr)
  from p4 obtain s3 c3 w3 where
      p3: "and_then (and_then ?r1 analyze_task_node) delegate_to_worker_node = (Inr s3, c3, w3)"
      and n4: "wait_for_response_node c3 s3 w3 = (Inr s4, c4, w4)"
    by (blast dest: and_then_Inr)
  from p3 obtain s2 c2 w2 where
      p2: "and_then ?r1 analyze_task_node = (Inr s2, c2, w2)"
      and n3: "delegate_to_worker_node c2 s2 w2 = (Inr s3, c3, w3)"
    by (blast dest: and_then_Inr)
  from p2 obtain s1 c1 w1 where
      p1: "?r1 = (Inr s1, c1, w1)"
      and n2: "analyze_task_node c1 s1 w1 = (Inr s2, c2, w2)"
    by (blast dest: and_then_Inr)
  from p1 have s1: "delegation_sent s1 = None \<and> cf_worker_response s1 = None"
    by (auto simp: receive_task_node_def no_keys_def Let_def)
  have "kept c1 = kept c"
    using receive_keeps [of c "no_keys\<lparr>incoming_message := Some m\<rparr>" w] p1 by simp
  moreover have "kept c2 = kept c1"
    using analyze_keeps [of c1 s1 w1] n2 by simp
  moreover have "kept c3 = kept c2"
    using delegate_keeps [of c2 s2 w2] n3 by simp
  ultimately have l3: "latest_worker_response (state c3) = Some r"
    using latest by (simp add: kept_def)
  from analyze_frame [OF n2] s1 have s2: "cf_worker_response s2 = None" by simp
  from delegate_frame [OF n3] s2 have s3: "cf_worker_response s3 = None" by simp
  from consolidate_frame [OF n5] complete_frame [OF n6] sent
  have d4: "delegation_sent s4 = Some True" and same: "cf_worker_response st' = cf_worker_response s4"
    by simp_all
  from wait_frame [OF n4, of r] d4 s3 l3 have "cf_worker_response s4 = Some (Reply r)"
    by simp
  with same show ?thesis by simp
qed

text \<open>
  C9. The coordinator holds one captured completion: a \<open>WORK_COMPLETE\<close> message that is
  dispatched for the first time overwrites \<open>latest_worker_response\<close> with its own text.
  No node of the workflow, and so no workflow run, changes the field. A run that starts
  while a completion \<open>r\<close> is held and that sends a delegation therefore ends with
  \<open>worker_response = r\<close>, the completion captured before this delegation existed, not
  with the placeholder; and \<open>r\<close> is still held afterwards.
\<close>

theorem latest_worker_response_reused:
  "(m_id completion \<notin> processed_messages (state c)
      \<and> startswith (m_intent completion) ''WORK_COMPLETE:'' \<longrightarrow>
      latest_worker_response (state (fst (snd (process_incoming_message c completion w))))
        = Some \<lparr> wr_status = ''Completed'',
                 wr_result = replace (m_intent completion) ''WORK_COMPLETE: '' [],
                 wr_details = ''Worker completed successfully'' \<rparr>)
   \<and> latest_worker_response (state (fst (snd (receive_task_node c st w))))
        = latest_worker_response (state c)
   \<and> latest_worker_response (state (fst (snd (analyze_task_node c st w))))
        = latest_worker_response (state c)
   \<and> latest_worker_response (state (fst (snd (delegate_to_worker_node c st w))))
        = latest_worker_response (state c)
   \<and> latest_worker_response (state (fst (snd (wait_for_response_node c st w))))
        = latest_worker_response (state c)
   \<and> latest_worker_response (state (fst (snd (consolidate_results_node c st w))))
        = latest_worker_response (state c)
   \<and> latest_worker_response (state (fst (snd (complete_task_node c st w))))
        = latest_worker_response (state c)
   \<and> latest_worker_response (state (fst (snd (workflow c st w))))
        = latest_worker_response (state c)
   \<and> (latest_worker_response (state c) = Some r
        \<and> workflow c (no_keys\<lparr>incoming_message := Some task_message\<rparr>) w = (Inr st', c', w')
        \<and> delegation_sent st' = Some True \<longrightarrow>
      cf_worker_response st' = Some (Reply r) \<and> latest_worker_response (state c') = Some r)"
proof (intro conjI impI)
  assume a: "latest_worker_response (state c) = Some r
        \<and> workflow c (no_keys\<lparr>incoming_message := Some task_message\<rparr>) w = (Inr st', c', w')
        \<and> delegation_sent st' = Some True"
  then show "cf_worker_response st' = Some (Reply r)"
    by (blast intro: workflow_reuses_latest)
  from a workflow_keeps [of c "no_keys\<lparr>incoming_message := Some task_message\<rparr>" w]
  show "latest_worker_response (state c') = Some r"
    by (simp add: kept_def)
next
  assume "m_id completion \<notin> processed_messages (state c)
      \<and> startswith (m_intent completion) ''WORK_COMPLETE:''"
  then show "latest_worker_response (state (fst (snd (process_incoming_message c completion w))))
        = Some \<lparr> wr_status = ''Completed'',
                 wr_result = replace (m_intent completion) ''WORK_COMPLETE: '' [],
                 wr_details = ''Worker completed successfully'' \<rparr>"
    by (simp add: process_incoming_message_def Let_def)
next
  show "latest_worker_response (state (fst (snd (receive_task_node c st w))))
        = latest_worker_response (state c)"
    using receive_keeps [of c st w] by (simp add: kept_def)
  show "latest_worker_response (state (fst (snd (analyze_task_node c st w))))
        = latest_worker_response (state c)"
    using analyze_keeps [of c st w] by (simp add: kept_def)
  show "latest_worker_response (state (fst (snd (delegate_to_worker_node c st w))))
        = latest_worker_response (state c)"
    using delegate_keeps [of c st w] by (simp add: kept_def)
  show "latest_worker_response (state (fst (snd (wait_for_response_node c st w))))
        = latest_worker_response (state c)"
    using wait_keeps [of c st w] by (simp add: kept_def)
  show "latest_worker_response (state (fst (snd (consolidate_results_node c st w))))
        = latest_worker_response (state c)"
    using consolidate_keeps [of c st w] by (simp add: kept_def)
  show "latest_worker_response (state (fst (snd (complete_task_node c st w))))
        = latest_worker_response (state c)"
    using complete_keeps [of c st w] by (simp add: kept_def)
  show "latest_worker_response (state (fst (snd (workflow c st w))))
        = latest_worker_response (state c)"
    using workflow_keeps [of c st w] by (simp add: kept_def)
qed

theorem latest_worker_response_reused_witness:
  "m_id (sample_message ''w1'' ''coordinator'' ''WORK_COMPLETE: old answer'')
     \<notin> processed_messages (state sample_coordinator)
   \<and> startswith (m_intent (sample_message ''w1'' ''coordinator'' ''WORK_COMPLETE: old answer''))
        ''WORK_COMPLETE:''
   \<and> latest_worker_response (state (fst (snd (process_incoming_message sample_coordinator
        (sample_message ''w1'' ''coordinator'' ''WORK_COMPLETE: old answer'')
        (sample_world (\<lambda>n. Served) sample_reply sample_loads)))))
      = Some \<lparr> wr_status = ''Completed'', wr_result = ''old answer'',
               wr_details = ''Worker completed successfully'' \<rparr>
   \<and> (case workflow
          (fst (snd (process_incoming_message sample_coordinator
             (sample_message ''w1'' ''coordinator'' ''WORK_COMPLETE: old answer'')
             (sample_world (\<lambda>n. Served) sample_reply sample_loads))))
          (no_keys\<lparr>incoming_message :=
             Some (sample_message ''m2'' ''coordinator'' ''Refactor the login module'')\<rparr>)
          (sample_world (\<lambda>n. Served) sample_reply sample_loads) of
        (Inl e, rest) \<Rightarrow> False
      | (Inr st', rest) \<Rightarrow>
          delegation_sent st' = Some True
          \<and> cf_worker_response st'
              = Some (Reply \<lparr> wr_status = ''Completed'', wr_result = ''old answer'',
                               wr_details = ''Worker completed successfully'' \<rparr>))"
proof -
  let ?w = "sample_world (\<lambda>n. Served) sample_reply sample_loads"
  let ?done = "sample_message ''w1'' ''coordinator'' ''WORK_COMPLETE: old answer''"
  let ?task = "sample_message ''m2'' ''coordinator'' ''Refactor the login module''"
  let ?c1 = "fst (snd (process_incoming_message sample_coordinator ?done ?w))"
  let ?r0 = "\<lparr> wr_status = ''Completed'', wr_result = ''old answer'',
               wr_details = ''Worker completed successfully'' \<rparr>"
  let ?init = "no_keys\<lparr>incoming_message := Some ?task\<rparr>"
  have fresh: "m_id ?done \<notin> processed_messages (state sample_coordinator)"
    by (simp add: sample_coordinator_def)
  have prefix: "startswith (m_intent ?done) ''WORK_COMPLETE:''"
    by (simp add: sample_message_def)
  have answer: "replace (m_intent ?done) ''WORK_COMPLETE: '' [] = ''old answer''"
    by (simp add: sample_message_def)
  have "m_id ?done \<notin> processed_messages (state sample_coordinator)
      \<and> startswith (m_intent ?done) ''WORK_COMPLETE:'' \<longrightarrow>
      latest_worker_response (state ?c1)
        = Some \<lparr> wr_status = ''Completed'',
                 wr_result = replace (m_intent ?done) ''WORK_COMPLETE: '' [],
                 wr_details = ''Worker completed successfully'' \<rparr>"
    using latest_worker_response_reused [of ?done sample_coordinator ?w no_keys ?r0 ?task
        no_keys sample_coordinator ?w]
    by (elim conjE)
  with fresh prefix answer have l: "latest_worker_response (state ?c1) = Some ?r0"
    by simp
  have c1: "?c1 = sample_coordinator\<lparr>state := (state sample_coordinator)
              \<lparr>processed_messages := {''w1''}, latest_worker_response := Some ?r0\<rparr>\<rparr>"
    by (simp add: process_incoming_message_def sample_coordinator_def sample_message_def Let_def)
  have d: "case workflow ?c1 ?init ?w of
             (Inl e, rest) \<Rightarrow> False
           | (Inr st', rest) \<Rightarrow> delegation_sent st' = Some True"
    unfolding c1 by (simp add: run_defs sample_defs)
  obtain x c' w' where run: "workflow ?c1 ?init ?w = (x, c', w')"
    by (cases "workflow ?c1 ?init ?w") auto
  with d obtain st' where x: "x = Inr st'" and sent: "delegation_sent st' = Some True"
    by (cases x) auto
  have "latest_worker_response (state ?c1) = Some ?r0
        \<and> workflow ?c1 ?init ?w = (Inr st', c', w')
        \<and> delegation_sent st' = Some True \<longrightarrow>
      cf_worker_response st' = Some (Reply ?r0) \<and> latest_worker_response (state c') = Some ?r0"
    using latest_worker_response_reused [of ?done ?c1 ?w no_keys ?r0 ?task st' c' w']
    by (elim conjE)
  with l run x sent have "cf_worker_response st' = Some (Reply ?r0)"
    by simp
  with fresh prefix l run x sent show ?thesis
    by simp
qed

section \<open>The analysis fallback\<close>

text \<open>
  What the two handlers of \<open>_analyze_task_node\<close> do when the call of the model raises,
  when the message has no content block, and when the reply is not JSON: each formats a
  variable that was never assigned, so the node raises \<open>UnboundLocalError\<close> before the
  handler's analysis is assigned.
\<close>

lemma analyze_task_handlers_raise:
  assumes "cf_task st = Some t"
  shows "(advisor_src w (advisor_calls w) = AdvisorRaises e \<longrightarrow>
            fst (analyze_task_node c st w) = Inl (UnboundLocalError ''response''))
       \<and> (advisor_src w (advisor_calls w) = AdvisorReply [] tin tout \<longrightarrow>
            fst (analyze_task_node c st w) = Inl (UnboundLocalError ''response''))
       \<and> (advisor_src w (advisor_calls w) = AdvisorReply (text # blocks) tin tout
            \<and> json_loads w (unfence text) = NotJSON \<longrightarrow>
            fst (analyze_task_node c st w) = Inl (UnboundLocalError ''analysis''))"
  using assms by (simp add: analyze_task_node_def call_advisor_def)

text \<open>
  The handler's analysis is reached only from \<open>except Exception\<close> with \<open>response\<close>
  assigned: when \<open>json.loads\<close> raises something other than \<open>JSONDecodeError\<close>, or when
  the decoded value is not an object.
\<close>

lemma analyze_task_fallback:
  assumes "cf_task st = Some t" and "cf_analysis st = None"
    and "advisor_src w (advisor_calls w) = AdvisorReply (text # blocks) tin tout"
    and "takes_fallback (json_loads w (unfence text))"
  shows "analyze_task_node c st w
     = (Inr (st\<lparr>cf_analysis := Some handler_analysis\<rparr>), c,
        w\<lparr>advisor_calls := Suc (advisor_calls w)\<rparr>)"
proof (cases "json_loads w (unfence text)")
  case (Decoded v)
  with assms show ?thesis
    by (cases v) (simp_all add: analyze_task_node_def call_advisor_def spread_def)
next
  case NotJSON
  with assms show ?thesis
    by simp
next
  case (DecodeRaises e)
  with assms show ?thesis
    by (simp add: analyze_task_node_def call_advisor_def spread_def)
qed

text \<open>
  The analysis the handlers assign is \<open>{complexity: "Not given", requires_worker: False,
  estimated_minutes: None, reasoning: "None given"}\<close>. On the outcomes of \<open>json.loads\<close>
  that reach it, \<open>analyze_task\<close> returns the state with this analysis; the run then adds
  no row addressed to \<open>worker\<close>, and when the coordinator is signed in and the insert of
  the completion answers with the row, the run completes through the remaining stages:
  the task is handled directly and one \<open>TASK_COMPLETE\<close> row replying to the task is
  stored.
\<close>

lemma fallback_analysis_direct_handling:
  assumes "advisor_src w (advisor_calls w) = AdvisorReply (text # blocks) tin tout"
    and "takes_fallback (json_loads w (unfence text))"
    and "human_user c = Some h"
  shows "handler_analysis
           = \<lparr> complexity = JStr ''Not given'', requires_worker = JBool False,
               estimated_minutes = JNull, reasoning = JStr ''None given'' \<rparr>
       \<and> fst (and_then (receive_task_node c (no_keys\<lparr>incoming_message := Some m\<rparr>) w)
                analyze_task_node)
           = Inr (no_keys\<lparr>cf_status := Some ''task_received'',
                    cf_task := Some \<lparr> t_id = m_id m, t_text = m_intent m,
                                      t_project_id = m_project_id m \<rparr>,
                    cf_analysis := Some handler_analysis\<rparr>)
       \<and> filter (\<lambda>row. m_to_agent row = ''worker'')
            (messages (snd (snd (workflow c (no_keys\<lparr>incoming_message := Some m\<rparr>) w))))
           = filter (\<lambda>row. m_to_agent row = ''worker'') (messages w)
       \<and> (store_src w (store_calls w) = Served \<longrightarrow>
            (\<exists>st' c' w' row.
               workflow c (no_keys\<lparr>incoming_message := Some m\<rparr>) w = (Inr st', c', w')
               \<and> cf_analysis st' = Some handler_analysis
               \<and> delegation_sent st' = Some False
               \<and> cf_worker_response st' = Some (Text ''Handled directly'')
               \<and> completion_sent st' = Some True
               \<and> messages w' = messages w @ [row]
               \<and> m_to_agent row = ''broadcast''
               \<and> m_intent row = ''TASK_COMPLETE: Task completed with worker assistance''
               \<and> m_reply_to row = Some (m_id m)))"
proof (intro conjI impI)
  show "handler_analysis
           = \<lparr> complexity = JStr ''Not given'', requires_worker = JBool False,
               estimated_minutes = JNull, reasoning = JStr ''None given'' \<rparr>"
    by (simp add: handler_analysis_def)
  let ?t = "\<lparr> t_id = m_id m, t_text = m_intent m, t_project_id = m_project_id m \<rparr>"
  let ?s1 = "no_keys\<lparr>cf_status := Some ''task_received'', cf_task := Some ?t\<rparr>"
  let ?c1 = "c\<lparr>state := (state c)\<lparr>current_task := Some ?t\<rparr>\<rparr>"
  let ?w1 = "w\<lparr>advisor_calls := Suc (advisor_calls w)\<rparr>"
  let ?s2 = "?s1\<lparr>cf_analysis := Some handler_analysis\<rparr>"
  have r1: "receive_task_node c (no_keys\<lparr>incoming_message := Some m\<rparr>) w = (Inr ?s1, ?c1, w)"
    by (simp add: receive_task_node_def no_keys_def Let_def)
  have r2: "analyze_task_node ?c1 ?s1 w = (Inr ?s2, ?c1, ?w1)"
    using assms by (intro analyze_task_fallback) (simp_all add: no_keys_def)
  from r1 r2 show "fst (and_then (receive_task_node c (no_keys\<lparr>incoming_message := Some m\<rparr>) w)
                analyze_task_node) = Inr ?s2"
    by (simp add: and_then_def)
  let ?s3 = "?s2\<lparr>delegation_sent := Some False\<rparr>"
  have r3: "delegate_to_worker_node ?c1 ?s2 ?w1 = (Inr ?s3, ?c1, ?w1)"
    by (simp add: delegate_to_worker_node_def handler_analysis_def spread_def no_keys_def)
  let ?s4 = "?s3\<lparr>cf_worker_response := Some (Text ''Handled directly'')\<rparr>"
  have r4: "wait_for_response_node ?c1 ?s3 ?w1 = (Inr ?s4, ?c1, ?w1)"
    by (simp add: wait_for_response_node_def spread_def no_keys_def)
  have chain: "workflow c (no_keys\<lparr>incoming_message := Some m\<rparr>) w
      = and_then (consolidate_results_node ?c1 ?s4 ?w1) complete_task_node"
    using r1 r2 r3 r4 by (simp add: workflow_def and_then_def)
  show "filter (\<lambda>row. m_to_agent row = ''worker'')
            (messages (snd (snd (workflow c (no_keys\<lparr>incoming_message := Some m\<rparr>) w))))
           = filter (\<lambda>row. m_to_agent row = ''worker'') (messages w)"
    unfolding chain using assms(3)
    by (simp add: consolidate_results_node_def complete_task_node_def and_then_def
        now_isoformat_def uuid4_def store_defs spread_def no_keys_def Let_def
        split: store_fate.splits)
  assume "store_src w (store_calls w) = Served"
  with assms(3) show "\<exists>st' c' w' row.
               workflow c (no_keys\<lparr>incoming_message := Some m\<rparr>) w = (Inr st', c', w')
               \<and> cf_analysis st' = Some handler_analysis
               \<and> delegation_sent st' = Some False
               \<and> cf_worker_response st' = Some (Text ''Handled directly'')
               \<and> completion_sent st' = Some True
               \<and> messages w' = messages w @ [row]
               \<and> m_to_agent row = ''broadcast''
               \<and> m_intent row = ''TASK_COMPLETE: Task completed with worker assistance''
               \<and> m_reply_to row = Some (m_id m)"
    unfolding chain
    by (simp add: consolidate_results_node_def complete_task_node_def and_then_def
        now_isoformat_def uuid4_def store_defs spread_def no_keys_def Let_def)
qed

text \<open>
  A run on a reply that decodes to a list: the analysis carries the handler's constants
  \<open>"Not given"\<close> and \<open>"None given"\<close>, the task completes, and no row is addressed to
  \<open>worker\<close>.
\<close>

lemma fallback_analysis_on_list:
  "(case workflow sample_coordinator
      (no_keys\<lparr>incoming_message :=
         Some (sample_message ''m1'' ''coordinator'' ''Refactor the login module'')\<rparr>)
      (sample_world (\<lambda>n. Served) list_reply sample_loads) of
     (Inl e, rest) \<Rightarrow> False
   | (Inr st, c, w) \<Rightarrow>
       cf_analysis st
         = Some \<lparr> complexity = JStr ''Not given'', requires_worker = JBool False,
                  estimated_minutes = JNull, reasoning = JStr ''None given'' \<rparr>
       \<and> completion_sent st = Some True
       \<and> filter (\<lambda>row. m_to_agent row = ''worker'') (messages w) = [])"
  by (simp add: run_defs sample_defs handler_analysis_def)

text \<open>
  C2. On the two failures the claim names the run does not reach the substitution. When
  the call of the model raises, \<open>except Exception\<close> formats \<open>response\<close>, which was never
  assigned; when the reply is not JSON, \<open>except json.JSONDecodeError\<close> formats
  \<open>analysis['reasoning']\<close>, which was never assigned. In both runs \<open>UnboundLocalError\<close>
  leaves \<open>analyze_task\<close> and the workflow, no later stage runs, and no row is stored:
  neither a work request nor the \<open>TASK_COMPLETE\<close> row of a completed task.
\<close>

theorem analysis_failure_aborts_run:
  "(case workflow sample_coordinator
      (no_keys\<lparr>incoming_message :=
         Some (sample_message ''m1'' ''coordinator'' ''Refactor the login module'')\<rparr>)
      (sample_world (\<lambda>n. Served) no_reply sample_loads) of
     (Inl e, c, w) \<Rightarrow> e = UnboundLocalError ''response'' \<and> messages w = []
   | (Inr st, c, w) \<Rightarrow> False)
   \<and> (case workflow sample_coordinator
      (no_keys\<lparr>incoming_message :=
         Some (sample_message ''m1'' ''coordinator'' ''Refactor the login module'')\<rparr>)
      (sample_world (\<lambda>n. Served) prose_reply sample_loads) of
     (Inl e, c, w) \<Rightarrow> e = UnboundLocalError ''analysis'' \<and> messages w = []
   | (Inr st, c, w) \<Rightarrow> False)"
  by (simp add: run_defs sample_defs)

section \<open>Record ids and envelope ids\<close>

text \<open>
  C10. A row added by \<open>delegate_to_worker\<close>, by \<open>complete_task\<close> or by the worker's
  \<open>send_result\<close> has as the id of its content envelope the first draw of
  \<open>uuid.uuid4()\<close> the stage makes and as its own id the second; with a generator that
  never repeats a value the two differ. A row added by the adapter's \<open>send_envelope\<close>
  has the id of the envelope it stores.
\<close>

theorem stored_row_ids:
  "list_all (\<lambda>row. e_id (m_content row) = uuid_src w (uuid_calls w)
                  \<and> m_id row = uuid_src w (Suc (uuid_calls w)))
     (drop (length (messages w)) (messages (snd (snd (delegate_to_worker_node c st w)))))
   \<and> list_all (\<lambda>row. e_id (m_content row) = uuid_src w (uuid_calls w)
                  \<and> m_id row = uuid_src w (Suc (uuid_calls w)))
     (drop (length (messages w)) (messages (snd (snd (complete_task_node c st w)))))
   \<and> list_all (\<lambda>row. e_id (m_content row) = uuid_src w (uuid_calls w)
                  \<and> m_id row = uuid_src w (Suc (uuid_calls w)))
     (drop (length (messages w)) (messages (snd (snd (send_result_node k request_state w)))))
   \<and> (inj (uuid_src w) \<longrightarrow>
        list_all (\<lambda>row. m_id row \<noteq> e_id (m_content row))
          (drop (length (messages w)) (messages (snd (snd (delegate_to_worker_node c st w)))))
        \<and> list_all (\<lambda>row. m_id row \<noteq> e_id (m_content row))
          (drop (length (messages w)) (messages (snd (snd (complete_task_node c st w)))))
        \<and> list_all (\<lambda>row. m_id row \<noteq> e_id (m_content row))
          (drop (length (messages w)) (messages (snd (snd (send_result_node k request_state w))))))
   \<and> list_all (\<lambda>row. m_id row = e_id (m_content row) \<and> m_content row = env)
        (drop (length (messages w)) (messages (snd (send_envelope env h w))))"
proof -
  have d: "list_all (\<lambda>row. e_id (m_content row) = uuid_src w (uuid_calls w)
                  \<and> m_id row = uuid_src w (Suc (uuid_calls w)))
     (drop (length (messages w)) (messages (snd (snd (delegate_to_worker_node c st w)))))"
    by (auto simp: delegate_to_worker_node_def uuid4_def store_defs Let_def
        split: option.splits prod.splits sum.splits list.splits store_fate.splits)
  have t: "list_all (\<lambda>row. e_id (m_content row) = uuid_src w (uuid_calls w)
                  \<and> m_id row = uuid_src w (Suc (uuid_calls w)))
     (drop (length (messages w)) (messages (snd (snd (complete_task_node c st w)))))"
    by (auto simp: complete_task_node_def uuid4_def store_defs Let_def
        split: option.splits prod.splits sum.splits list.splits store_fate.splits)
  have s: "list_all (\<lambda>row. e_id (m_content row) = uuid_src w (uuid_calls w)
                  \<and> m_id row = uuid_src w (Suc (uuid_calls w)))
     (drop (length (messages w)) (messages (snd (snd (send_result_node k request_state w)))))"
    by (auto simp: send_result_node_def uuid4_def store_defs Let_def
        split: option.splits prod.splits sum.splits list.splits store_fate.splits)
  have a: "list_all (\<lambda>row. m_id row = e_id (m_content row) \<and> m_content row = env)
        (drop (length (messages w)) (messages (snd (send_envelope env h w))))"
    by (auto simp: send_envelope_def store_defs Let_def
        split: option.splits prod.splits sum.splits list.splits store_fate.splits)
  have differ: "inj (uuid_src w) \<Longrightarrow>
      list_all (\<lambda>row. e_id (m_content row) = uuid_src w (uuid_calls w)
                  \<and> m_id row = uuid_src w (Suc (uuid_calls w))) rows \<Longrightarrow>
      list_all (\<lambda>row. m_id row \<noteq> e_id (m_content row)) rows" for rows
    by (auto simp: list_all_iff dest: injD)
  from d t s a differ show ?thesis
    by blast
qed

theorem stored_row_ids_witness:
  "inj (uuid_src (sample_world (\<lambda>n. Served) sample_reply sample_loads))
   \<and> list_all (\<lambda>row. m_id row \<noteq> e_id (m_content row))
       (messages (snd (snd (delegate_to_worker_node sample_coordinator
          (sample_task\<lparr>cf_analysis := Some (handler_analysis\<lparr>requires_worker := JBool True\<rparr>)\<rparr>)
          (sample_world (\<lambda>n. Served) sample_reply sample_loads)))))
   \<and> map (\<lambda>row. (m_id row, e_id (m_content row)))
       (messages (snd (snd (delegate_to_worker_node sample_coordinator
          (sample_task\<lparr>cf_analysis := Some (handler_analysis\<lparr>requires_worker := JBool True\<rparr>)\<rparr>)
          (sample_world (\<lambda>n. Served) sample_reply sample_loads)))))
     = [(''uuid-0'', ''uuid-'')]"
proof -
  let ?w = "sample_world (\<lambda>n. Served) sample_reply sample_loads"
  let ?st = "sample_task\<lparr>cf_analysis := Some (handler_analysis\<lparr>requires_worker := JBool True\<rparr>)\<rparr>"
  have fresh: "inj (uuid_src ?w)"
    by (rule inj_sample_uuid)
  have empty: "messages ?w = []"
    by (simp add: sample_world_def)
  have "inj (uuid_src ?w) \<longrightarrow>
        list_all (\<lambda>row. m_id row \<noteq> e_id (m_content row))
          (drop (length (messages ?w))
             (messages (snd (snd (delegate_to_worker_node sample_coordinator ?st ?w)))))
        \<and> list_all (\<lambda>row. m_id row \<noteq> e_id (m_content row))
          (drop (length (messages ?w))
             (messages (snd (snd (complete_task_node sample_coordinator ?st ?w)))))
        \<and> list_all (\<lambda>row. m_id row \<noteq> e_id (m_content row))
          (drop (length (messages ?w))
             (messages (snd (snd (send_result_node sample_worker no_worker_keys ?w)))))"
    using stored_row_ids [of ?w sample_coordinator ?st sample_worker no_worker_keys
        "fst (create_task ''p'' ''a'' ''b'' ''t'' ?w)" "''human-1''"]
    by (elim conjE)
  with fresh empty
  have a: "list_all (\<lambda>row. m_id row \<noteq> e_id (m_content row))
       (messages (snd (snd (delegate_to_worker_node sample_coordinator ?st ?w))))"
    by simp
  have b: "map (\<lambda>row. (m_id row, e_id (m_content row)))
       (messages (snd (snd (delegate_to_worker_node sample_coordinator ?st ?w))))
     = [(''uuid-0'', ''uuid-'')]"
    by (simp add: delegate_to_worker_node_def sample_task_def no_keys_def handler_analysis_def
        sample_defs uuid4_def store_defs spread_def Let_def)
  from fresh a b show ?thesis
    by simp
qed

end
